theory Spec2Isabelle
  imports Complex_Main "HOL-Library.Sublist"
begin

section \<open>Python values used by the invoice pipeline\<close>

text \<open>
  Python floats are modelled by \<^typ>\<open>real\<close>, with exact arithmetic except where a
  definition rounds (the confidence formula, whose bits a claim is about), Python
  strings by \<^typ>\<open>string\<close> (ASCII), \<open>Optional[T]\<close> by \<^typ>\<open>'a option\<close> and a
  \<open>dict\<close> by a map.  \<open>d.get(k, default)\<close> is \<open>dict_get\<close>.
\<close>

definition dict_get :: "('k \<rightharpoonup> 'v) \<Rightarrow> 'k \<Rightarrow> 'v \<Rightarrow> 'v" where
  "dict_get d k dflt = (case d k of None \<Rightarrow> dflt | Some v \<Rightarrow> v)"

section \<open>Strings and library functions\<close>

text \<open>\<open>str(n)\<close> for a non-negative integer, and \<open>str(i)\<close> for any integer.\<close>

definition digit_char :: "nat \<Rightarrow> char" where
  "digit_char d = ''0123456789'' ! d"

fun str_nat :: "nat \<Rightarrow> string" where
  "str_nat n = (if n < 10 then [digit_char n] else str_nat (n div 10) @ [digit_char (n mod 10)])"

declare str_nat.simps [simp del]

definition str_int :: "int \<Rightarrow> string" where
  "str_int i = (if i < 0 then CHR ''-'' # str_nat (nat (- i)) else str_nat (nat i))"

text \<open>\<open>s.lower()\<close> on ASCII text.\<close>

definition lower_char :: "char \<Rightarrow> char" where
  "lower_char c =
     (let n = (of_char c :: nat) in if 65 \<le> n \<and> n \<le> 90 then char_of (n + 32) else c)"

definition lower :: "string \<Rightarrow> string" where
  "lower s = map lower_char s"

text \<open>
  The functions of libraries outside the repository that the deduplication engine and the
  heuristics call: \<open>hashlib.sha256(s.encode('utf-8')).hexdigest()\<close>, the formatting of a
  float inside an f-string (plain and with \<open>:.1f\<close>), \<open>rapidfuzz.fuzz.ratio\<close> and
  \<open>rapidfuzz.fuzz.partial_ratio\<close>.  The code is modelled over any such functions.
\<close>

record pylib =
  sha256_hexdigest :: "string \<Rightarrow> string"
  float_str :: "real \<Rightarrow> string"
  format_1f :: "real \<Rightarrow> string"
  fuzz_ratio :: "string \<Rightarrow> string \<Rightarrow> real"
  fuzz_partial_ratio :: "string \<Rightarrow> string \<Rightarrow> real"

section \<open>deduplication.py\<close>

record invoice_data =
  vendor_id :: "string option"
  invoice_id :: "string option"
  total_amount :: "real option"
  invoice_date :: "string option"
  job_id :: "string option"

text \<open>
  Python truthiness: \<open>None\<close>, the empty string and \<open>0.0\<close> are falsy.
  \<open>all_truthy\<close> is \<open>all([vendor_id, invoice_id, total_amount, invoice_date])\<close>.
\<close>

definition truthy_str :: "string option \<Rightarrow> bool" where
  "truthy_str v = (case v of None \<Rightarrow> False | Some s \<Rightarrow> s \<noteq> [])"

definition truthy_num :: "real option \<Rightarrow> bool" where
  "truthy_num v = (case v of None \<Rightarrow> False | Some x \<Rightarrow> x \<noteq> 0)"

definition all_truthy ::
  "string option \<Rightarrow> string option \<Rightarrow> real option \<Rightarrow> string option \<Rightarrow> bool" where
  "all_truthy v i t d = (truthy_str v \<and> truthy_str i \<and> truthy_num t \<and> truthy_str d)"

text \<open>\<open>f"{vendor_id}|{invoice_id}|{total_amount}|{invoice_date}"\<close> and its like with spaces.\<close>

definition joined ::
  "pylib \<Rightarrow> string \<Rightarrow> string option \<Rightarrow> string option \<Rightarrow> real option \<Rightarrow> string option \<Rightarrow> string" where
  "joined L sep v i t d =
     the v @ sep @ the i @ sep @ float_str L (the t) @ sep @ the d"

definition compute_dedupe_hash ::
  "pylib \<Rightarrow> string option \<Rightarrow> string option \<Rightarrow> real option \<Rightarrow> string option \<Rightarrow> string option" where
  "compute_dedupe_hash L v i t d =
     (if \<not> all_truthy v i t d then None
      else Some (sha256_hexdigest L (joined L [CHR ''|''] v i t d)))"

definition fields_truthy :: "'a invoice_data_scheme \<Rightarrow> bool" where
  "fields_truthy r = all_truthy (vendor_id r) (invoice_id r) (total_amount r) (invoice_date r)"

definition same_fields :: "'a invoice_data_scheme \<Rightarrow> 'b invoice_data_scheme \<Rightarrow> bool" where
  "same_fields e r =
     (vendor_id e = vendor_id r \<and> invoice_id e = invoice_id r \<and>
      total_amount e = total_amount r \<and> invoice_date e = invoice_date r)"

definition comparison_str :: "pylib \<Rightarrow> 'a invoice_data_scheme \<Rightarrow> string" where
  "comparison_str L r =
     joined L [CHR '' ''] (vendor_id r) (invoice_id r) (total_amount r) (invoice_date r)"

definition similarity :: "pylib \<Rightarrow> 'a invoice_data_scheme \<Rightarrow> 'b invoice_data_scheme \<Rightarrow> real" where
  "similarity L r e =
     fuzz_ratio L (lower (comparison_str L r)) (lower (comparison_str L e)) / 100.0"

text \<open>\<open>existing.get("job_id", "unknown")\<close>\<close>

definition job_name :: "'a invoice_data_scheme \<Rightarrow> string" where
  "job_name e = (case job_id e of None \<Rightarrow> ''unknown'' | Some j \<Rightarrow> j)"

text \<open>The loop over \<open>existing_invoices\<close>, in order.\<close>

fun near_duplicate_scan ::
  "pylib \<Rightarrow> 'a invoice_data_scheme \<Rightarrow> real \<Rightarrow> 'b invoice_data_scheme list \<Rightarrow> (string \<times> real) list" where
  "near_duplicate_scan L r thr [] = []"
| "near_duplicate_scan L r thr (e # es) =
     (if \<not> fields_truthy e then near_duplicate_scan L r thr es
      else if same_fields e r then near_duplicate_scan L r thr es
      else if similarity L r e \<ge> thr
        then (job_name e, similarity L r e) # near_duplicate_scan L r thr es
      else near_duplicate_scan L r thr es)"

text \<open>
  \<open>sorted(near_duplicates, key=lambda x: x[1], reverse=True)\<close>: a stable sort, largest
  similarity first.
\<close>

definition detect_near_duplicates ::
  "pylib \<Rightarrow> 'a invoice_data_scheme \<Rightarrow> 'b invoice_data_scheme list \<Rightarrow> real \<Rightarrow> (string \<times> real) list" where
  "detect_near_duplicates L r existing_invoices similarity_threshold =
     (if \<not> fields_truthy r then []
      else sort_key (\<lambda>x. - snd x) (near_duplicate_scan L r similarity_threshold existing_invoices))"

text \<open>The hash of a record, as \<open>check_duplicates\<close> computes it from the four fields it reads.\<close>

definition dedupe_hash_of :: "pylib \<Rightarrow> 'a invoice_data_scheme \<Rightarrow> string option" where
  "dedupe_hash_of L r =
     compute_dedupe_hash L (vendor_id r) (invoice_id r) (total_amount r) (invoice_date r)"

definition check_duplicates ::
  "pylib \<Rightarrow> 'a invoice_data_scheme \<Rightarrow> string set \<Rightarrow> 'b invoice_data_scheme list option
     \<Rightarrow> bool \<times> bool \<times> (string \<times> real) list" where
  "check_duplicates L r existing_hashes existing_invoices =
     (let dedupe_hash = dedupe_hash_of L r;
          is_exact_duplicate =
            (case dedupe_hash of None \<Rightarrow> False | Some h \<Rightarrow> h \<noteq> [] \<and> h \<in> existing_hashes)
      in case existing_invoices of
           None \<Rightarrow> (is_exact_duplicate, False, [])
         | Some es \<Rightarrow>
             if es \<noteq> [] \<and> \<not> is_exact_duplicate
             then (let near_duplicates = detect_near_duplicates L r es 0.95
                   in (is_exact_duplicate, length near_duplicates > 0, near_duplicates))
             else (is_exact_duplicate, False, []))"

text \<open>
  main.py, where the result is built: \<open>near_duplicates[:5]\<close> keeps the first five entries.
\<close>

definition reported_near_duplicates :: "(string \<times> real) list \<Rightarrow> (string \<times> real) list" where
  "reported_near_duplicates near_duplicates = take 5 near_duplicates"

section \<open>confidence.py: the fallback trigger policy\<close>

text \<open>
  \<open>ocr_time = timings.get("ocr", 0) or timings.get("extraction", 0)\<close>: Python's \<open>or\<close>
  yields its left operand unless that is falsy (zero), so the OCR time is read under the
  key \<open>ocr\<close> and, when that is absent or zero, under the key \<open>extraction\<close>.
  A \<open>None\<close> or empty \<open>timings\<close> skips the time-based rule, which is what a total time
  of zero does as well.
\<close>

definition ocr_time :: "(string \<rightharpoonup> real) option \<Rightarrow> real" where
  "ocr_time timings =
     (case timings of
        None \<Rightarrow> 0
      | Some t \<Rightarrow> (if dict_get t ''ocr'' 0 \<noteq> 0 then dict_get t ''ocr'' 0
                   else dict_get t ''extraction'' 0))"

definition heur_time :: "(string \<rightharpoonup> real) option \<Rightarrow> real" where
  "heur_time timings =
     (case timings of None \<Rightarrow> 0 | Some t \<Rightarrow> dict_get t ''heuristics'' 0)"

definition should_use_llm ::
  "real \<Rightarrow> string \<Rightarrow> bool \<Rightarrow> (string \<rightharpoonup> real) option \<Rightarrow> bool \<Rightarrow> bool \<times> string" where
  "should_use_llm confidence field_name is_required timings field_missing =
     (if field_missing \<and> is_required then (True, ''missing_field'')
      else if confidence < 0.5 \<and> is_required then (True, ''low_conf'')
      else if timings \<noteq> None \<and> timings \<noteq> Some Map.empty \<and> is_required then
        (let total_time = ocr_time timings + heur_time timings
         in if total_time > 10.0 \<and> confidence < 0.85 then (True, ''slow_pipeline'')
            else (False, ''''))
      else (False, ''''))"

text \<open>The policy as the specification words it, over the two stage times.\<close>

definition fallback_policy :: "real \<Rightarrow> bool \<Rightarrow> real \<Rightarrow> real \<Rightarrow> bool \<Rightarrow> bool \<times> string" where
  "fallback_policy confidence is_required ocr_t heur_t field_missing =
     (if field_missing \<and> is_required then (True, ''missing_field'')
      else if confidence < 0.5 \<and> is_required then (True, ''low_conf'')
      else if ocr_t + heur_t > 10 \<and> confidence < 0.85 \<and> is_required then (True, ''slow_pipeline'')
      else (False, ''''))"

text \<open>
  The time recorded for a stage, as the specification takes it from the timing dictionary:
  the entry under the stage's key, zero when there is no dictionary or no such entry.
\<close>

definition recorded_time :: "(string \<rightharpoonup> real) option \<Rightarrow> string \<Rightarrow> real" where
  "recorded_time timings k =
     (case timings of None \<Rightarrow> 0 | Some t \<Rightarrow> (case t k of None \<Rightarrow> 0 | Some x \<Rightarrow> x))"

section \<open>confidence.py: the confidence formula, in double precision\<close>

text \<open>
  Claim C1 is about the bits of the score, so \<open>compute_confidence\<close> is modelled with the
  arithmetic Python floats have: every literal and every operation is rounded to the
  nearest number with a 53-bit significand, ties to even (IEEE-754 binary64).  The exponent
  range is not bounded; the scores and their inputs lie far from overflow and underflow.
\<close>

function bit_length :: "int \<Rightarrow> int" where
  "bit_length n = (if n \<le> 0 then 0 else 1 + bit_length (n div 2))"
  by pat_completeness auto
termination
  by (relation "measure nat") auto

declare bit_length.simps [simp del]

text \<open>The exponent of the leading bit of a positive number: \<open>2 ^ ilog2 x \<le> x < 2 ^ (ilog2 x + 1)\<close>.\<close>

definition ilog2 :: "real \<Rightarrow> int" where
  "ilog2 x = (if x \<ge> 1 then bit_length \<lfloor>x\<rfloor> - 1 else - bit_length (\<lceil>1 / x\<rceil> - 1))"

definition scale2 :: "real \<Rightarrow> int \<Rightarrow> real" where
  "scale2 x e = (if e \<ge> 0 then x * 2 ^ nat e else x / 2 ^ nat (- e))"

definition round_half_even :: "real \<Rightarrow> int" where
  "round_half_even x =
     (let f = \<lfloor>x\<rfloor>; d = x - of_int f
      in if d < 1 / 2 then f else if d > 1 / 2 then f + 1 else if even f then f else f + 1)"

definition binary64 :: "real \<Rightarrow> real" where
  "binary64 x =
     (if x = 0 then 0
      else (let e = ilog2 \<bar>x\<bar> - 52;
                m = round_half_even (scale2 \<bar>x\<bar> (- e))
            in sgn x * scale2 (of_int m) e))"

text \<open>
  \<open>compute_confidence\<close>, over any rounding \<open>rnd\<close> of literals and results; the inputs are
  floats already.  \<open>0.0\<close> and \<open>1.0\<close> are exact.
\<close>

definition compute_confidence_with ::
  "(real \<Rightarrow> real) \<Rightarrow> real \<Rightarrow> real \<Rightarrow> real \<Rightarrow> bool \<Rightarrow> real" where
  "compute_confidence_with rnd ocr_c label_score regex_score llm_agree =
     (let base = rnd 0.2;
          final = rnd (rnd (base + rnd (rnd 0.7 * min ocr_c (min label_score regex_score)))
                         + (if llm_agree then rnd 0.1 else 0.0))
      in max 0.0 (min 1.0 final))"

definition compute_confidence :: "real \<Rightarrow> real \<Rightarrow> real \<Rightarrow> bool \<Rightarrow> real" where
  "compute_confidence = compute_confidence_with binary64"

text \<open>The formula as the specification writes it, with its \<open>clamp\<close>, in the same arithmetic.\<close>

definition clamp :: "real \<Rightarrow> real \<Rightarrow> real \<Rightarrow> real" where
  "clamp lo hi x = (if x < lo then lo else if x > hi then hi else x)"

definition confidence_formula :: "real \<Rightarrow> real \<Rightarrow> real \<Rightarrow> bool \<Rightarrow> real" where
  "confidence_formula ocr_c label_score regex_score llm_agree =
     clamp 0.0 1.0
       (binary64 (binary64 (binary64 0.2
                     + binary64 (binary64 0.7 * Min {ocr_c, label_score, regex_score}))
                  + (if llm_agree then binary64 0.1 else 0.0)))"

section \<open>backpressure.py: the sliding-window rate limiter\<close>

record RateLimiter =
  max_calls :: int
  time_window :: real
  calls :: "real list"

definition RateLimiter_init :: "int \<Rightarrow> real \<Rightarrow> RateLimiter" where
  "RateLimiter_init mc tw = \<lparr>max_calls = mc, time_window = tw, calls = []\<rparr>"

text \<open>
  \<open>while self.calls and self.calls[0] < now - self.time_window: self.calls.popleft()\<close>
\<close>

fun evict :: "real \<Rightarrow> real list \<Rightarrow> real list" where
  "evict cutoff [] = []"
| "evict cutoff (c # cs) = (if c < cutoff then evict cutoff cs else c # cs)"

text \<open>\<open>acquire\<close> reads the clock once; the reading \<open>now\<close> is an argument of the model.\<close>

definition acquire :: "real \<Rightarrow> RateLimiter \<Rightarrow> bool \<times> RateLimiter" where
  "acquire now self =
     (let cs = evict (now - time_window self) (calls self)
      in if int (length cs) \<ge> max_calls self then (False, self\<lparr>calls := cs\<rparr>)
         else (True, self\<lparr>calls := cs @ [now]\<rparr>))"

text \<open>
  \<open>wait_time\<close>; \<open>None\<close> stands for the \<open>IndexError\<close> of \<open>self.calls[0]\<close> on an empty window,
  which is reached when \<open>max_calls\<close> is not positive.
\<close>

definition wait_time :: "real \<Rightarrow> RateLimiter \<Rightarrow> real option" where
  "wait_time now self =
     (if int (length (calls self)) < max_calls self then Some 0
      else (case calls self of
              [] \<Rightarrow> None
            | oldest_call # _ \<Rightarrow> Some (max 0 (time_window self - (now - oldest_call)))))"

text \<open>A run of \<open>acquire\<close> calls at successive clock readings, with their results.\<close>

fun acquire_seq :: "real list \<Rightarrow> RateLimiter \<Rightarrow> bool list \<times> RateLimiter" where
  "acquire_seq [] rl = ([], rl)"
| "acquire_seq (t # ts) rl =
     (case acquire t rl of (ok, rl') \<Rightarrow>
        (case acquire_seq ts rl' of (oks, rl'') \<Rightarrow> (ok # oks, rl'')))"

section \<open>main.py: validation flags and user corrections\<close>

text \<open>
  Values of type \<open>Any\<close> (what the language model returns, what a correction carries, what
  a result dictionary holds) are \<open>None\<close>, booleans, integers, floats or strings.
\<close>

datatype pyval = PNone | PBool bool | PInt int | PNum real | PStr string

fun truthy :: "pyval \<Rightarrow> bool" where
  "truthy PNone = False"
| "truthy (PBool b) = b"
| "truthy (PInt i) = (i \<noteq> 0)"
| "truthy (PNum x) = (x \<noteq> 0)"
| "truthy (PStr s) = (s \<noteq> [])"

definition opt_str :: "string option \<Rightarrow> pyval" where
  "opt_str v = (case v of None \<Rightarrow> PNone | Some s \<Rightarrow> PStr s)"

definition opt_num :: "real option \<Rightarrow> pyval" where
  "opt_num v = (case v of None \<Rightarrow> PNone | Some x \<Rightarrow> PNum x)"

text \<open>\<open>s.strip()\<close>: the characters for which \<open>str.isspace\<close> holds, among the first 256.\<close>

definition is_space :: "char \<Rightarrow> bool" where
  "is_space c = ((of_char c :: nat) \<in> {9, 10, 11, 12, 13, 28, 29, 30, 31, 32, 133, 160})"

definition strip :: "string \<Rightarrow> string" where
  "strip s = rev (dropWhile is_space (rev (dropWhile is_space s)))"

datatype py_error = AttributeError | HTTPException nat

record validation_flags =
  missing_invoice_id :: bool
  missing_total :: bool
  missing_vendor_name :: bool
  missing_date :: bool
  is_invalid :: bool

text \<open>
  \<open>process_invoice\<close>, ``Validate invoice and set validation flags''.  The invoice identifier
  is whatever the heuristics or the language model produced; the vendor name and the date
  come out of their canonicalizers, the total out of \<open>canonicalize_amount\<close>.
  \<open>not v or v.strip() == ""\<close> raises \<open>AttributeError\<close> on a truthy value that is no string.
\<close>

definition missing_or_blank :: "pyval \<Rightarrow> py_error + bool" where
  "missing_or_blank v =
     (if \<not> truthy v then Inr True
      else (case v of PStr s \<Rightarrow> Inr (strip s = []) | _ \<Rightarrow> Inl AttributeError))"

definition final_flags ::
  "pyval \<Rightarrow> real option \<Rightarrow> string option \<Rightarrow> string option \<Rightarrow> py_error + validation_flags" where
  "final_flags inv_id tot vendor inv_date =
     (case missing_or_blank inv_id of
        Inl e \<Rightarrow> Inl e
      | Inr m_id \<Rightarrow>
          (let m_total = (tot = None) in
           case missing_or_blank (opt_str vendor) of
             Inl e \<Rightarrow> Inl e
           | Inr m_vendor \<Rightarrow>
               (case missing_or_blank (opt_str inv_date) of
                  Inl e \<Rightarrow> Inl e
                | Inr m_date \<Rightarrow>
                    Inr \<lparr>missing_invoice_id = m_id, missing_total = m_total,
                         missing_vendor_name = m_vendor, missing_date = m_date,
                         is_invalid = (m_id \<or> m_total \<or> m_vendor \<or> m_date)\<rparr>)))"

text \<open>
  The canonicalizers \<open>verify_corrections\<close> calls.  What they compute from a value (date
  parsing, currency and vendor tables, number parsing of \<open>str(new_value)\<close>) is left open;
  their result types are those of the source.  \<open>vendor_match\<close> is the table lookup of
  \<open>VendorCanonicalizer.canonicalize\<close> on a stripped, non-empty name, giving the canonical
  identifier and name.
\<close>

record canon =
  canonicalize_date :: "pyval \<Rightarrow> string option"
  canonicalize_currency :: "pyval \<Rightarrow> string option"
  canonicalize_amount_of_str :: "pyval \<Rightarrow> real option"
  vendor_match :: "string \<Rightarrow> string \<times> string"

definition vendor_canonicalize :: "canon \<Rightarrow> pyval \<Rightarrow> py_error + pyval \<times> pyval" where
  "vendor_canonicalize C v =
     (if \<not> truthy v then Inr (PNone, PNone)
      else (case v of
              PStr s \<Rightarrow>
                if strip s = [] then Inr (PNone, PNone)
                else (case vendor_match C (strip s) of (cid, name) \<Rightarrow> Inr (PStr cid, PStr name))
            | _ \<Rightarrow> Inl AttributeError))"

type_synonym result_dict = "string \<rightharpoonup> pyval"

text \<open>
  The loop over \<open>request.corrections.items()\<close>.  The dictionary is the job's own result,
  updated in place: when a canonicalizer raises, the updates made so far remain, which is
  why the dictionary is returned next to the error.
\<close>

fun apply_corrections ::
  "canon \<Rightarrow> (string \<times> pyval) list \<Rightarrow> result_dict \<Rightarrow> result_dict \<times> py_error option" where
  "apply_corrections C [] d = (d, None)"
| "apply_corrections C ((field_name, new_value) # cs) d =
     (let d1 = d(field_name \<mapsto> new_value) in
      if field_name = ''invoice_date''
        then apply_corrections C cs (d1(field_name \<mapsto> opt_str (canonicalize_date C new_value)))
      else if field_name = ''currency''
        then apply_corrections C cs (d1(field_name \<mapsto> opt_str (canonicalize_currency C new_value)))
      else if field_name = ''total_amount''
        then apply_corrections C cs (d1(field_name \<mapsto> opt_num (canonicalize_amount_of_str C new_value)))
      else if field_name = ''vendor_name''
        then (case vendor_canonicalize C new_value of
                Inl e \<Rightarrow> (d1, Some e)
              | Inr (vid, vname) \<Rightarrow>
                  apply_corrections C cs (d1(''vendor_name'' \<mapsto> vname, ''vendor_id'' \<mapsto> vid)))
      else apply_corrections C cs d1)"

text \<open>``Recalculate validation flags after corrections''.\<close>

definition missing_value :: "pyval \<Rightarrow> bool" where
  "missing_value v = (\<not> truthy v \<or> (case v of PStr s \<Rightarrow> strip s = [] | _ \<Rightarrow> False))"

definition recalculate_flags :: "result_dict \<Rightarrow> result_dict" where
  "recalculate_flags d =
     (let inv_id = dict_get d ''invoice_id'' PNone;
          tot = dict_get d ''total_amount'' PNone;
          vendor = dict_get d ''vendor_name'' PNone;
          inv_date = dict_get d ''invoice_date'' PNone;
          m_id = missing_value inv_id;
          m_total = (tot = PNone);
          m_vendor = missing_value vendor;
          m_date = missing_value inv_date;
          invalid = (m_id \<or> m_total \<or> m_vendor \<or> m_date)
      in d(''missing_invoice_id'' \<mapsto> PBool m_id, ''missing_total'' \<mapsto> PBool m_total,
           ''missing_vendor_name'' \<mapsto> PBool m_vendor, ''missing_date'' \<mapsto> PBool m_date,
           ''is_invalid'' \<mapsto> PBool invalid))"

record job =
  job_result :: "result_dict option"

definition verify_corrections ::
  "canon \<Rightarrow> (string \<rightharpoonup> job) \<Rightarrow> string \<Rightarrow> (string \<times> pyval) list
     \<Rightarrow> (py_error + result_dict) \<times> (string \<rightharpoonup> job)" where
  "verify_corrections C job_storage jid corrections =
     (case job_storage jid of
        None \<Rightarrow> (Inl (HTTPException 404), job_storage)
      | Some j \<Rightarrow>
          (case job_result j of
             None \<Rightarrow> (Inl (HTTPException 400), job_storage)
           | Some d \<Rightarrow>
               (case apply_corrections C corrections d of
                  (d1, Some e) \<Rightarrow> (Inl e, job_storage(jid \<mapsto> j\<lparr>job_result := Some d1\<rparr>))
                | (d1, None) \<Rightarrow>
                    (let d2 = recalculate_flags d1
                     in (Inr d2, job_storage(jid \<mapsto> j\<lparr>job_result := Some d2\<rparr>))))))"

text \<open>
  The specification's notion of an empty field: no value, a falsy value, or a string of
  white space only; the total is empty when it is \<open>None\<close>.
\<close>

definition field_empty :: "pyval \<Rightarrow> bool" where
  "field_empty v =
     (case v of
        PNone \<Rightarrow> True
      | PBool b \<Rightarrow> \<not> b
      | PInt i \<Rightarrow> i = 0
      | PNum x \<Rightarrow> x = 0
      | PStr s \<Rightarrow> list_all is_space s)"

definition flags_agree :: "result_dict \<Rightarrow> bool" where
  "flags_agree d =
     (d ''missing_invoice_id'' = Some (PBool (field_empty (dict_get d ''invoice_id'' PNone))) \<and>
      d ''missing_total'' = Some (PBool (dict_get d ''total_amount'' PNone = PNone)) \<and>
      d ''missing_vendor_name'' = Some (PBool (field_empty (dict_get d ''vendor_name'' PNone))) \<and>
      d ''missing_date'' = Some (PBool (field_empty (dict_get d ''invoice_date'' PNone))) \<and>
      d ''is_invalid'' =
        Some (PBool (field_empty (dict_get d ''invoice_id'' PNone) \<or>
                     dict_get d ''total_amount'' PNone = PNone \<or>
                     field_empty (dict_get d ''vendor_name'' PNone) \<or>
                     field_empty (dict_get d ''invoice_date'' PNone))))"

section \<open>main.py: the language-model fallback of \<open>process_invoice\<close>\<close>

text \<open>
  \<open>str(v)\<close>, \<open>float(v)\<close> and \<open>int(x)\<close>.  \<open>float\<close> of a string reads, between white space, a
  sign, digits with an optional fraction and an optional exponent; a digit part may hold
  single underscores between its digits.  \<open>None\<close> stands for the \<open>ValueError\<close> or
  \<open>TypeError\<close> it raises otherwise.  The value is the real number written; the spellings of
  infinity and of not-a-number denote no real and are not read.
\<close>

definition is_digit :: "char \<Rightarrow> bool" where
  "is_digit c = (48 \<le> (of_char c :: int) \<and> (of_char c :: int) \<le> 57)"

definition digits_value :: "string \<Rightarrow> int" where
  "digits_value ds = foldl (\<lambda>a c. 10 * a + (of_char c - 48)) 0 ds"

fun digitpart :: "string \<Rightarrow> bool" where
  "digitpart [] = False"
| "digitpart [c] = is_digit c"
| "digitpart (c # d # r) =
     (is_digit c \<and> (if d = CHR ''_'' then digitpart r else digitpart (d # r)))"

definition digitpart_value :: "string \<Rightarrow> int" where
  "digitpart_value s = digits_value (filter is_digit s)"

definition pointfloat :: "string \<Rightarrow> real option" where
  "pointfloat s =
     (let ip = takeWhile (\<lambda>c. c \<noteq> CHR ''.'') s; rest = dropWhile (\<lambda>c. c \<noteq> CHR ''.'') s
      in case rest of
           [] \<Rightarrow> if digitpart ip then Some (of_int (digitpart_value ip)) else None
         | c # fp \<Rightarrow>
             if (ip = [] \<or> digitpart ip) \<and> (fp = [] \<or> digitpart fp) \<and> (ip \<noteq> [] \<or> fp \<noteq> [])
             then Some (of_int (digitpart_value ip)
                        + of_int (digitpart_value fp) / 10 ^ length (filter is_digit fp))
             else None)"

definition exponent :: "string \<Rightarrow> int option" where
  "exponent s =
     (case s of
        [] \<Rightarrow> None
      | c # r \<Rightarrow>
          if c = CHR ''-'' then (if digitpart r then Some (- digitpart_value r) else None)
          else if c = CHR ''+'' then (if digitpart r then Some (digitpart_value r) else None)
          else (if digitpart (c # r) then Some (digitpart_value (c # r)) else None))"

definition unsigned_decimal :: "string \<Rightarrow> real option" where
  "unsigned_decimal s =
     (let is_e = (\<lambda>c. c = CHR ''e'' \<or> c = CHR ''E'');
          mantissa = takeWhile (\<lambda>c. \<not> is_e c) s; rest = dropWhile (\<lambda>c. \<not> is_e c) s
      in case pointfloat mantissa of
           None \<Rightarrow> None
         | Some m \<Rightarrow>
             (case rest of
                [] \<Rightarrow> Some m
              | c # ex \<Rightarrow>
                  (case exponent ex of
                     None \<Rightarrow> None
                   | Some k \<Rightarrow> Some (if k \<ge> 0 then m * 10 ^ nat k else m / 10 ^ nat (- k)))))"

definition float_of_str :: "string \<Rightarrow> real option" where
  "float_of_str s =
     (case strip s of
        [] \<Rightarrow> None
      | c # r \<Rightarrow>
          if c = CHR ''-'' then map_option uminus (unsigned_decimal r)
          else if c = CHR ''+'' then unsigned_decimal r
          else unsigned_decimal (c # r))"

definition py_float :: "pyval \<Rightarrow> real option" where
  "py_float v =
     (case v of
        PNone \<Rightarrow> None
      | PBool b \<Rightarrow> Some (if b then 1 else 0)
      | PInt i \<Rightarrow> Some (of_int i)
      | PNum x \<Rightarrow> Some x
      | PStr s \<Rightarrow> float_of_str s)"

definition py_str :: "pylib \<Rightarrow> pyval \<Rightarrow> string" where
  "py_str L v =
     (case v of
        PNone \<Rightarrow> ''None''
      | PBool b \<Rightarrow> (if b then ''True'' else ''False'')
      | PInt i \<Rightarrow> str_int i
      | PNum x \<Rightarrow> float_str L x
      | PStr s \<Rightarrow> s)"

definition trunc_int :: "real \<Rightarrow> int" where
  "trunc_int x = (if x < 0 then \<lceil>x\<rceil> else \<lfloor>x\<rfloor>)"

text \<open>\<open>re.sub(r'[^\d]', '', s)\<close> and the substring test \<open>a in b\<close>.\<close>

definition digits_only :: "string \<Rightarrow> string" where
  "digits_only s = filter is_digit s"

fun py_in :: "string \<Rightarrow> string \<Rightarrow> bool" where
  "py_in a [] = (a = [])"
| "py_in a (c # cs) = (prefix a (c # cs) \<or> py_in a cs)"

text \<open>
  A heuristic result is the tuple \<open>(value, confidence, reason)\<close>.  The collaborators of
  the fallback are gathered in a record: whether there are OCR blocks, the budget of the
  safety guard, the backpressure manager's answer, the replies of
  \<open>llm_router.extract_fields\<close> to the early and to the batched request (\<open>None\<close> also when
  the call raises, which the pipeline catches), the timings, and
  \<open>compute_field_confidence\<close> over the blocks of the document.
\<close>

type_synonym field_result = "pyval \<times> real \<times> string"

record heuristic_results =
  h_invoice_id :: field_result
  h_invoice_date :: field_result
  h_total_amount :: field_result
  h_vendor_name :: field_result
  h_tax_amount :: field_result

record llm_env =
  n_blocks :: nat
  llm_budget_ok :: bool
  early_llm_reply :: "string list \<Rightarrow> (string \<rightharpoonup> pyval) option"
  llm_can_process :: bool
  batch_llm_reply :: "string list \<Rightarrow> (string \<rightharpoonup> pyval) option"
  pipeline_timings :: "(string \<rightharpoonup> real) option"
  field_confidence_of :: "string \<Rightarrow> field_result \<Rightarrow> real"

record extraction =
  invoice_id_result :: field_result
  invoice_date_result :: field_result
  total_amount_result :: field_result
  vendor_name_result :: field_result
  tax_amount_result :: field_result
  field_confidences :: "string \<rightharpoonup> real"
  field_sources :: "string \<rightharpoonup> string"
  llm_used :: bool
  llm_fields :: "string list"
  llm_calls :: "string list list"

text \<open>\<open>"k" in d and d["k"]\<close>, and \<open>d.get("k")\<close> used as a condition.\<close>

definition has_value :: "(string \<rightharpoonup> pyval) \<Rightarrow> string \<Rightarrow> bool" where
  "has_value d k = (case d k of None \<Rightarrow> False | Some v \<Rightarrow> truthy v)"

text \<open>
  ``Early LLM fallback if heuristics found nothing'': with fewer than two of the four
  values found and at least one block, the fields without a value are requested, the
  budget permitting.  The second component lists the requests issued.
\<close>

definition early_update :: "(string \<rightharpoonup> pyval) \<Rightarrow> string \<Rightarrow> field_result \<Rightarrow> field_result" where
  "early_update d k r = (if has_value d k then (the (d k), 0.7, ''Early LLM extraction'') else r)"

definition heuristic_success :: "heuristic_results \<Rightarrow> nat" where
  "heuristic_success h =
     length (filter (\<lambda>r. fst r \<noteq> PNone)
               [h_invoice_id h, h_invoice_date h, h_total_amount h, h_vendor_name h])"

definition early_llm_fields :: "heuristic_results \<Rightarrow> string list" where
  "early_llm_fields h =
     (if \<not> truthy (fst (h_invoice_id h)) then [''invoice_id''] else []) @
     (if \<not> truthy (fst (h_invoice_date h)) then [''invoice_date''] else []) @
     (if \<not> truthy (fst (h_total_amount h)) then [''total_amount''] else []) @
     (if \<not> truthy (fst (h_vendor_name h)) then [''vendor_name''] else [])"

definition early_updates :: "(string \<rightharpoonup> pyval) \<Rightarrow> heuristic_results \<Rightarrow> heuristic_results" where
  "early_updates d h =
     h\<lparr>h_invoice_id := early_update d ''invoice_id'' (h_invoice_id h),
       h_invoice_date := early_update d ''invoice_date'' (h_invoice_date h),
       h_total_amount := early_update d ''total_amount'' (h_total_amount h),
       h_vendor_name := early_update d ''vendor_name'' (h_vendor_name h)\<rparr>"

definition early_llm_stage ::
  "llm_env \<Rightarrow> heuristic_results \<Rightarrow> heuristic_results \<times> string list list" where
  "early_llm_stage E h =
     (if heuristic_success h < 2 \<and> n_blocks E > 0 then
        (if early_llm_fields h \<noteq> [] then
           (if llm_budget_ok E then
              (case early_llm_reply E (early_llm_fields h) of
                 None \<Rightarrow> (h, [early_llm_fields h])
               | Some d \<Rightarrow>
                   if d = Map.empty then (h, [early_llm_fields h])
                   else (early_updates d h, [early_llm_fields h]))
            else (h, []))
         else (h, []))
      else (h, []))"

text \<open>The quick confidence of a result, and the early-exit test over the four required fields.\<close>

definition quick_conf :: "field_result \<Rightarrow> real" where
  "quick_conf r =
     0.2 + 0.7 * min (fst (snd r))
                   (min (if truthy (fst r) then 1.0 else 0.0) (if truthy (fst r) then 1.0 else 0.0))"

definition all_high_conf :: "heuristic_results \<Rightarrow> bool" where
  "all_high_conf h =
     (quick_conf (h_invoice_id h) \<ge> 0.85 \<and> quick_conf (h_total_amount h) \<ge> 0.85 \<and>
      quick_conf (h_invoice_date h) \<ge> 0.85 \<and> quick_conf (h_vendor_name h) \<ge> 0.85)"

text \<open>``Step 3: Confidence scoring'', for the fields the fallback reads.\<close>

definition source_of :: "field_result \<Rightarrow> string" where
  "source_of r = (if truthy (fst r) then ''heuristic'' else ''none'')"

definition scored :: "llm_env \<Rightarrow> heuristic_results \<Rightarrow> string list list \<Rightarrow> extraction" where
  "scored E h issued =
     \<lparr>invoice_id_result = h_invoice_id h,
      invoice_date_result = h_invoice_date h,
      total_amount_result = h_total_amount h,
      vendor_name_result = h_vendor_name h,
      tax_amount_result = h_tax_amount h,
      field_confidences =
        [''invoice_id'' \<mapsto> field_confidence_of E ''invoice_id'' (h_invoice_id h),
         ''invoice_date'' \<mapsto> field_confidence_of E ''invoice_date'' (h_invoice_date h),
         ''total_amount'' \<mapsto> field_confidence_of E ''total_amount'' (h_total_amount h),
         ''vendor_name'' \<mapsto> field_confidence_of E ''vendor_name'' (h_vendor_name h),
         ''amount_tax'' \<mapsto> field_confidence_of E ''amount_tax'' (h_tax_amount h)],
      field_sources =
        [''invoice_id'' \<mapsto> source_of (h_invoice_id h),
         ''invoice_date'' \<mapsto> source_of (h_invoice_date h),
         ''total_amount'' \<mapsto> source_of (h_total_amount h)],
      llm_used = False,
      llm_fields = [],
      llm_calls = issued\<rparr>"

text \<open>``Collect all fields needing LLM'': skipped altogether on early exit.\<close>

definition wants_llm :: "llm_env \<Rightarrow> extraction \<Rightarrow> string \<Rightarrow> bool \<Rightarrow> field_result \<Rightarrow> string list" where
  "wants_llm E st k is_required r =
     (if fst (should_use_llm (dict_get (field_confidences st) k 0) k is_required
                (pipeline_timings E) (fst r = PNone))
      then [k] else [])"

definition fields_to_extract :: "llm_env \<Rightarrow> bool \<Rightarrow> extraction \<Rightarrow> string list" where
  "fields_to_extract E high st =
     (if \<not> high then
        wants_llm E st ''invoice_id'' True (invoice_id_result st) @
        wants_llm E st ''invoice_date'' True (invoice_date_result st) @
        wants_llm E st ''total_amount'' True (total_amount_result st) @
        wants_llm E st ''vendor_name'' True (vendor_name_result st) @
        wants_llm E st ''amount_tax'' False (tax_amount_result st)
      else [])"

text \<open>
  ``Update values from LLM''.  An accepted value replaces the result, raises the field's
  confidence by 0.2 up to 0.85 and marks its source.
\<close>

definition accept_llm :: "string \<Rightarrow> extraction \<Rightarrow> extraction" where
  "accept_llm k st =
     st\<lparr>field_confidences :=
           (field_confidences st)(k \<mapsto> min 0.85 (dict_get (field_confidences st) k 0 + 0.2)),
        field_sources := (field_sources st)(k \<mapsto> ''llm'')\<rparr>"

datatype verdict = Accept | MatchesInvoiceId | TooLarge | Invalid

text \<open>
  The checks on the model's total: they run only when there is an invoice identifier.
  \<open>Invalid\<close> is the \<open>except (ValueError, TypeError)\<close> branch.
\<close>

definition reconcile_total :: "pylib \<Rightarrow> pyval \<Rightarrow> pyval \<Rightarrow> verdict" where
  "reconcile_total L inv_id llm_total =
     (if truthy inv_id then
        (let inv_id_clean = digits_only (py_str L inv_id) in
         case (if truthy llm_total
               then map_option (\<lambda>x. (str_int (trunc_int x), x > 1000000)) (py_float llm_total)
               else Some ([], False)) of
           None \<Rightarrow> Invalid
         | Some (total_int_str, too_large) \<Rightarrow>
             if total_int_str = inv_id_clean \<or> (inv_id_clean \<noteq> [] \<and> py_in total_int_str inv_id_clean)
               then MatchesInvoiceId
             else if too_large then TooLarge
             else Accept)
      else Accept)"

definition apply_llm_total :: "pylib \<Rightarrow> (string \<rightharpoonup> pyval) \<Rightarrow> extraction \<Rightarrow> extraction" where
  "apply_llm_total L d st =
     (if has_value d ''total_amount'' then
        (let llm_total = the (d ''total_amount'') in
         if reconcile_total L (fst (invoice_id_result st)) llm_total = Accept
         then accept_llm ''total_amount'' (st\<lparr>total_amount_result := (llm_total, 0.75, ''LLM extraction'')\<rparr>)
         else st)
      else st)"

definition apply_llm_result :: "pylib \<Rightarrow> (string \<rightharpoonup> pyval) \<Rightarrow> extraction \<Rightarrow> extraction" where
  "apply_llm_result L d st =
     (let st1 = (if has_value d ''invoice_id''
                 then accept_llm ''invoice_id''
                        (st\<lparr>invoice_id_result := (the (d ''invoice_id''), 0.75, ''LLM extraction'')\<rparr>)
                 else st);
          st2 = (if has_value d ''invoice_date''
                 then accept_llm ''invoice_date''
                        (st1\<lparr>invoice_date_result := (the (d ''invoice_date''), 0.75, ''LLM extraction'')\<rparr>)
                 else st1);
          st3 = apply_llm_total L d st2
      in if has_value d ''vendor_name''
         then accept_llm ''vendor_name''
                (st3\<lparr>vendor_name_result := (the (d ''vendor_name''), 0.75, ''LLM extraction'')\<rparr>)
         else st3)"

text \<open>``Batch all fields into single LLM call (with backpressure)''.\<close>

definition batch_llm_stage :: "pylib \<Rightarrow> llm_env \<Rightarrow> string list \<Rightarrow> extraction \<Rightarrow> extraction" where
  "batch_llm_stage L E requested st =
     (if requested \<noteq> [] then
        (if \<not> llm_can_process E then st
         else (let st1 = st\<lparr>llm_calls := llm_calls st @ [requested]\<rparr>
               in case batch_llm_reply E requested of
                    None \<Rightarrow> st1
                  | Some d \<Rightarrow>
                      if d = Map.empty then st1
                      else apply_llm_result L d (st1\<lparr>llm_used := True, llm_fields := requested\<rparr>)))
      else st)"

definition process_llm :: "pylib \<Rightarrow> llm_env \<Rightarrow> heuristic_results \<Rightarrow> extraction" where
  "process_llm L E h =
     (case early_llm_stage E h of
        (h1, issued) \<Rightarrow>
          (let high = all_high_conf h1;
               st = scored E h1 issued
           in batch_llm_stage L E (fields_to_extract E high st) st))"

section \<open>utils.py and heuristics.py: extraction of the total amount\<close>

record OCRBlock =
  block_text :: string
  bbox :: "real \<times> real \<times> real \<times> real"
  block_confidence :: real
  block_engine :: string

text \<open>\<open>b.bbox[1]\<close> and \<open>b.bbox[3]\<close>.\<close>

definition bbox_y1 :: "OCRBlock \<Rightarrow> real" where
  "bbox_y1 b = (case bbox b of (x1, y1, x2, y2) \<Rightarrow> y1)"

definition bbox_y2 :: "OCRBlock \<Rightarrow> real" where
  "bbox_y2 b = (case bbox b of (x1, y1, x2, y2) \<Rightarrow> y2)"

subsection \<open>Text helpers\<close>

text \<open>
  \<open>normalize_text\<close> on ASCII text, where the Unicode normalisation changes nothing: line
  breaks become spaces, \<open>re.sub(r'\s+', ' ', s)\<close> collapses each run of white space into one
  space, and the result is stripped.
\<close>

fun collapse_ws :: "bool \<Rightarrow> string \<Rightarrow> string" where
  "collapse_ws in_run [] = []"
| "collapse_ws in_run (c # cs) =
     (if is_space c
      then (if in_run then collapse_ws True cs else CHR '' '' # collapse_ws True cs)
      else c # collapse_ws False cs)"

definition normalize_text :: "string \<Rightarrow> string" where
  "normalize_text s =
     (if s = [] then []
      else strip (collapse_ws False
                    (map (\<lambda>c. if c = CHR 0x0A \<or> c = CHR 0x0D then CHR '' '' else c) s)))"

text \<open>\<open>s.split()\<close> and \<open>' '.join(ws)\<close>.\<close>

fun split_acc :: "string \<Rightarrow> string \<Rightarrow> string list" where
  "split_acc cur [] = (if cur = [] then [] else [rev cur])"
| "split_acc cur (c # cs) =
     (if is_space c
      then (if cur = [] then split_acc [] cs else rev cur # split_acc [] cs)
      else split_acc (c # cur) cs)"

definition ws_split :: "string \<Rightarrow> string list" where
  "ws_split s = split_acc [] s"

fun join_space :: "string list \<Rightarrow> string" where
  "join_space [] = []"
| "join_space [w] = w"
| "join_space (w # v # ws) = w @ CHR '' '' # join_space (v # ws)"

text \<open>The word characters \<open>\w\<close> and the word boundary \<open>\b\<close> between two neighbours.\<close>

definition is_word_char :: "char \<Rightarrow> bool" where
  "is_word_char c =
     (let n = (of_char c :: int)
      in (48 \<le> n \<and> n \<le> 57) \<or> (65 \<le> n \<and> n \<le> 90) \<or> (97 \<le> n \<and> n \<le> 122) \<or> n = 95)"

definition word_at :: "char option \<Rightarrow> bool" where
  "word_at c = (case c of None \<Rightarrow> False | Some x \<Rightarrow> is_word_char x)"

definition boundary :: "char option \<Rightarrow> char option \<Rightarrow> bool" where
  "boundary a b = (word_at a \<noteq> word_at b)"

definition head_opt :: "string \<Rightarrow> char option" where
  "head_opt s = (case s of [] \<Rightarrow> None | c # _ \<Rightarrow> Some c)"

text \<open>\<open>re.search(r'\b' + re.escape(label) + r'\b', text)\<close>, for a non-empty label.\<close>

fun word_bounded_search :: "string \<Rightarrow> char option \<Rightarrow> string \<Rightarrow> bool" where
  "word_bounded_search label prev [] = False"
| "word_bounded_search label prev (c # cs) =
     ((label \<noteq> [] \<and> prefix label (c # cs) \<and> boundary prev (Some c) \<and>
       boundary (Some (last label)) (head_opt (drop (length label) (c # cs))))
      \<or> word_bounded_search label (Some c) cs)"

subsection \<open>Labels\<close>

definition TOTAL_LABELS :: "string list" where
  "TOTAL_LABELS =
     [''total'', ''amount due'', ''grand total'', ''balance due'',
      ''total geral'', ''total a pagar'', ''importe total'', ''total factura'']"

definition label_matches :: "pylib \<Rightarrow> string \<Rightarrow> string \<Rightarrow> real \<Rightarrow> bool" where
  "label_matches L txt label threshold =
     (let t = map (\<lambda>c. if c = CHR '':'' \<or> c = CHR ''.'' \<or> c = CHR ''-'' then CHR '' '' else c)
                (lower txt);
          text_joined = join_space (ws_split t);
          label_joined = join_space (ws_split (lower label))
      in if py_in label_joined text_joined then True
         else fuzz_partial_ratio L text_joined label_joined \<ge> threshold)"

text \<open>The loop over the labels for one block, with its \<open>if\<close>/\<open>elif\<close> chain and \<open>break\<close>.\<close>

fun label_hit :: "pylib \<Rightarrow> string \<Rightarrow> string list \<Rightarrow> bool" where
  "label_hit L text_norm [] = False"
| "label_hit L text_norm (label # labels) =
     (if lower label \<in> set (ws_split text_norm) then True
      else if py_in (lower label) text_norm then
        (if word_bounded_search (lower label) None text_norm then True
         else label_hit L text_norm labels)
      else if label_matches L text_norm label 75 then True
      else label_hit L text_norm labels)"

definition find_blocks_with_label :: "pylib \<Rightarrow> OCRBlock list \<Rightarrow> string list \<Rightarrow> OCRBlock list" where
  "find_blocks_with_label L blocks labels =
     filter (\<lambda>b. label_hit L (lower (normalize_text (block_text b))) labels) blocks"

subsection \<open>The relaxed amount pattern\<close>

text \<open>
  \<open>AMOUNT_RELAXED = (?<!\S)([-+]?\d{1,3}(?:[,\s]\d{3})*(?:[.,]\d{1,2}))(?!\S)\<close>.
  The matcher follows the backtracking order of the pattern: the sign is taken when
  present, the leading digits are three, then two, then one, the groups of three digits as
  many as there are, then fewer, the decimals two, then one; the first combination that
  ends before white space or at the end of the text is the match.  Each function returns
  the number of characters matched.
\<close>

definition is_group_sep :: "char \<Rightarrow> bool" where
  "is_group_sep c = (c = CHR '','' \<or> is_space c)"

definition is_dec_sep :: "char \<Rightarrow> bool" where
  "is_dec_sep c = (c = CHR ''.'' \<or> c = CHR '','')"

definition lookahead_ok :: "string \<Rightarrow> bool" where
  "lookahead_ok s = (case s of [] \<Rightarrow> True | c # _ \<Rightarrow> is_space c)"

fun count_groups :: "string \<Rightarrow> nat" where
  "count_groups (s # a # b # c # rest) =
     (if is_group_sep s \<and> is_digit a \<and> is_digit b \<and> is_digit c
      then Suc (count_groups rest) else 0)"
| "count_groups _ = 0"

definition decimal_end :: "string \<Rightarrow> nat option" where
  "decimal_end s =
     (case s of
        sep # d1 # rest \<Rightarrow>
          if is_dec_sep sep \<and> is_digit d1 then
            (case rest of
               [] \<Rightarrow> Some 2
             | d2 # rest2 \<Rightarrow>
                 if is_digit d2 \<and> lookahead_ok rest2 then Some 3
                 else if lookahead_ok rest then Some 2
                 else None)
          else None
      | _ \<Rightarrow> None)"

fun groups_then_decimal :: "nat \<Rightarrow> string \<Rightarrow> nat option" where
  "groups_then_decimal 0 s = decimal_end s"
| "groups_then_decimal (Suc k) s =
     (case decimal_end (drop (4 * Suc k) s) of
        Some n \<Rightarrow> Some (4 * Suc k + n)
      | None \<Rightarrow> groups_then_decimal k s)"

fun lead_then_rest :: "nat \<Rightarrow> string \<Rightarrow> nat option" where
  "lead_then_rest 0 s = None"
| "lead_then_rest (Suc n) s =
     (case groups_then_decimal (count_groups (drop (Suc n) s)) (drop (Suc n) s) of
        Some m \<Rightarrow> Some (Suc n + m)
      | None \<Rightarrow> lead_then_rest n s)"

definition amount_relaxed_at :: "string \<Rightarrow> nat option" where
  "amount_relaxed_at s =
     (let signed = (case s of [] \<Rightarrow> False | c # _ \<Rightarrow> c = CHR ''-'' \<or> c = CHR ''+'');
          body = (if signed then tl s else s);
          lead = min 3 (length (takeWhile is_digit body))
      in map_option (\<lambda>n. (if signed then 1 else 0) + n) (lead_then_rest lead body))"

text \<open>
  \<open>AMOUNT_RELAXED.finditer(text)\<close>: a match may start at the beginning of the text or after
  white space; the search resumes where a match ended.
\<close>

function find_amounts :: "char option \<Rightarrow> string \<Rightarrow> string list" where
  "find_amounts prev [] = []"
| "find_amounts prev (c # cs) =
     (if (case prev of None \<Rightarrow> True | Some p \<Rightarrow> is_space p) then
        (case amount_relaxed_at (c # cs) of
           None \<Rightarrow> find_amounts (Some c) cs
         | Some n \<Rightarrow>
             take n (c # cs) # find_amounts (Some (last (take n (c # cs)))) (drop (n - 1) cs))
      else find_amounts (Some c) cs)"
  by pat_completeness auto
termination
  by (relation "measure (\<lambda>(prev, s). length s)") auto

subsection \<open>\<open>parse_amount_str\<close>\<close>

text \<open>
  \<open>re.search(r',\d{lo,hi}\b', s)\<close>: a comma followed by a run of \<open>lo\<close> to \<open>hi\<close> digits
  that no word character follows.  \<open>s.rfind(c)\<close> is \<open>-1\<close> when \<open>c\<close> does not occur.
\<close>

fun search_comma_digits :: "nat \<Rightarrow> nat \<Rightarrow> string \<Rightarrow> bool" where
  "search_comma_digits lo hi [] = False"
| "search_comma_digits lo hi (c # cs) =
     ((c = CHR '','' \<and>
       (let nd = length (takeWhile is_digit cs)
        in lo \<le> nd \<and> nd \<le> hi \<and> \<not> word_at (head_opt (drop nd cs))))
      \<or> search_comma_digits lo hi cs)"

definition rfind :: "char \<Rightarrow> string \<Rightarrow> int" where
  "rfind c s =
     (if c \<in> set s then int (length s) - 1 - int (length (takeWhile (\<lambda>x. x \<noteq> c) (rev s)))
      else - 1)"

definition replace_char :: "char \<Rightarrow> char \<Rightarrow> string \<Rightarrow> string" where
  "replace_char a b s = map (\<lambda>c. if c = a then b else c) s"

definition remove_char :: "char \<Rightarrow> string \<Rightarrow> string" where
  "remove_char a s = filter (\<lambda>c. c \<noteq> a) s"

definition parse_amount_str :: "string \<Rightarrow> real option" where
  "parse_amount_str s =
     (if s = [] then None
      else
        (let t = strip s;
             t_clean = filter (\<lambda>c. is_digit c \<or> c = CHR '','' \<or> c = CHR ''.'' \<or> c = CHR ''-'') t
         in if t_clean = [] then None
            else
              (let t1 =
                     (if CHR ''.'' \<in> set t_clean \<and> CHR '','' \<in> set t_clean then
                        (if rfind (CHR '','') t_clean > rfind (CHR ''.'') t_clean
                         then replace_char (CHR '','') (CHR ''.'') (remove_char (CHR ''.'') t_clean)
                         else remove_char (CHR '','') t_clean)
                      else if count_list t_clean (CHR '','') > 1 \<or> search_comma_digits 3 3 t_clean
                        then remove_char (CHR '','') t_clean
                      else if search_comma_digits 1 2 t_clean \<and> CHR ''.'' \<notin> set t_clean
                        then replace_char (CHR '','') (CHR ''.'') t_clean
                      else remove_char (CHR '','') t_clean);
                   t2 = dropWhile (\<lambda>c. \<not> (is_digit c \<or> c = CHR ''-'')) t1;
                   t3 = rev (dropWhile (\<lambda>c. \<not> (is_digit c \<or> c = CHR ''.'')) (rev t2))
               in float_of_str t3)))"

subsection \<open>Invoice identifiers to keep out of the total\<close>

text \<open>
  \<open>float(digits)\<close> of a string of digits.  An identifier may have more digits than the 53
  bits of a float hold, so the rounding to the nearest double is kept here.  \<open>None\<close> stands
  for the infinity that a number beyond the double range becomes: the comparison
  \<open>abs(val - invoice_id_numeric) < 0.001\<close> is then false, as it is skipped when there is no
  number, and \<open>int\<close> of it raises, which the bare \<open>except\<close> swallows.
\<close>

definition float_of_digits :: "string \<Rightarrow> real option" where
  "float_of_digits ds =
     (let x = binary64 (of_int (digits_value ds)) in if x < 2 ^ 1024 then Some x else None)"

definition invoice_id_numeric :: "string option \<Rightarrow> real option" where
  "invoice_id_numeric inv_id =
     (case inv_id of
        None \<Rightarrow> None
      | Some i \<Rightarrow>
          if i = [] then None
          else (let digits = digits_only i in if digits = [] then None else float_of_digits digits))"

definition id_numbers_of_id :: "string option \<Rightarrow> string list" where
  "id_numbers_of_id inv_id =
     (case inv_id of
        None \<Rightarrow> []
      | Some i \<Rightarrow>
          if i = [] then []
          else (let invoice_id_clean = digits_only i
                in if invoice_id_clean = [] then []
                   else invoice_id_clean #
                        (case float_of_digits invoice_id_clean of
                           None \<Rightarrow> []
                         | Some x \<Rightarrow> [str_int (trunc_int x)])))"

text \<open>
  \<open>re.findall(r'\b\d{6,12}\b', s)\<close>: the maximal runs of word characters that consist of six
  to twelve digits.
\<close>

fun word_runs_acc :: "string \<Rightarrow> string \<Rightarrow> string list" where
  "word_runs_acc cur [] = (if cur = [] then [] else [rev cur])"
| "word_runs_acc cur (c # cs) =
     (if is_word_char c then word_runs_acc (c # cur) cs
      else (if cur = [] then word_runs_acc [] cs else rev cur # word_runs_acc [] cs))"

definition digit_runs :: "string \<Rightarrow> string list" where
  "digit_runs s =
     filter (\<lambda>w. list_all is_digit w \<and> 6 \<le> length w \<and> length w \<le> 12) (word_runs_acc [] s)"

definition ID_LABELS :: "string list" where
  "ID_LABELS = [''invoice no'', ''invoice number'', ''invoice #'', ''inv no'', ''inv #'']"

definition block_id_numbers :: "OCRBlock \<Rightarrow> string list" where
  "block_id_numbers b =
     (let text_lower = lower (normalize_text (block_text b));
          text_clean = strip (block_text b)
      in (if list_ex (\<lambda>label. py_in label text_lower) ID_LABELS
          then filter (\<lambda>num. length num \<ge> 7) (digit_runs (block_text b)) else [])
         @ (if bbox_y1 b < 300 \<and> list_all is_digit text_clean \<and>
               7 \<le> length text_clean \<and> length text_clean \<le> 12
            then [text_clean] else []))"

definition invoice_id_numbers :: "string option \<Rightarrow> OCRBlock list \<Rightarrow> string list" where
  "invoice_id_numbers inv_id blocks = id_numbers_of_id inv_id @ concat (map block_id_numbers blocks)"

subsection \<open>Candidates, rejection and scoring\<close>

definition MAX_TOTAL_DEFAULT :: real where
  "MAX_TOTAL_DEFAULT = 1000000.0"

definition BOTTOM_PAGE_RATIO :: real where
  "BOTTOM_PAGE_RATIO = 0.40"

definition PREFER_CURRENCY_SYMBOL :: bool where
  "PREFER_CURRENCY_SYMBOL = True"

record candidate =
  cand_raw :: string
  cand_val :: real
  cand_block :: OCRBlock
  cand_has_sym :: bool
  cand_bottom_frac :: real
  cand_near_label :: bool

text \<open>
  The currency test on the raw token and \<open>AMOUNT_STRICT.search\<close>, for the symbols and codes
  that are ASCII: a currency, optional white space, an optional sign and a digit (what
  follows the first digit in the pattern is optional).
\<close>

definition has_currency :: "string \<Rightarrow> bool" where
  "has_currency raw =
     list_ex (\<lambda>tok. py_in tok (lower raw)) [''$'', ''usd'', ''inr'', ''eur'', ''gbp'', ''rs.'']"

definition digit_after_currency :: "string \<Rightarrow> bool" where
  "digit_after_currency s =
     (let r = dropWhile is_space s;
          r' = (case r of [] \<Rightarrow> [] | c # t \<Rightarrow> if c = CHR ''-'' \<or> c = CHR ''+'' then t else r)
      in case r' of [] \<Rightarrow> False | d # _ \<Rightarrow> is_digit d)"

fun amount_strict_search :: "string \<Rightarrow> bool" where
  "amount_strict_search [] = False"
| "amount_strict_search (c # cs) =
     (list_ex (\<lambda>tok. prefix tok (lower (c # cs)) \<and> digit_after_currency (drop (length tok) (c # cs)))
        [''$'', ''usd'', ''inr'', ''eur'', ''gbp'', ''rs.'', ''rs'']
      \<or> amount_strict_search cs)"

text \<open>\<open>re.search(r'\d+,\d{1,2}\b', raw)\<close>: as \<open>search_comma_digits 1 2\<close>, the comma after a digit.\<close>

fun search_digit_comma_digits :: "char option \<Rightarrow> string \<Rightarrow> bool" where
  "search_digit_comma_digits prev [] = False"
| "search_digit_comma_digits prev (c # cs) =
     (((case prev of None \<Rightarrow> False | Some p \<Rightarrow> is_digit p) \<and> c = CHR '','' \<and>
       (let nd = length (takeWhile is_digit cs)
        in 1 \<le> nd \<and> nd \<le> 2 \<and> \<not> word_at (head_opt (drop nd cs))))
      \<or> search_digit_comma_digits (Some c) cs)"

definition page_height_of :: "OCRBlock list \<Rightarrow> real" where
  "page_height_of blocks = (case map bbox_y2 blocks of [] \<Rightarrow> 1000 | y # ys \<Rightarrow> fold max ys y)"

definition is_priority :: "real list \<Rightarrow> real \<Rightarrow> OCRBlock \<Rightarrow> bool" where
  "is_priority label_ys page_h b =
     (let y_ratio = (if page_h > 0 then bbox_y1 b / page_h else 0)
      in y_ratio \<ge> 0.4 \<or> list_ex (\<lambda>lb_y. \<bar>lb_y - bbox_y1 b\<bar> < 150) label_ys)"

definition candidate_of :: "real list \<Rightarrow> real \<Rightarrow> OCRBlock \<Rightarrow> string \<Rightarrow> candidate list" where
  "candidate_of label_ys page_h b m =
     (let raw = strip m
      in if raw = [] then []
         else (case parse_amount_str raw of
                 None \<Rightarrow> []
               | Some parsed \<Rightarrow>
                   if parsed = 0.0 then []
                   else [\<lparr>cand_raw = raw, cand_val = parsed, cand_block = b,
                          cand_has_sym = has_currency raw,
                          cand_bottom_frac = (if page_h > 0 then bbox_y2 b / page_h else 0),
                          cand_near_label = list_ex (\<lambda>lb_y. \<bar>lb_y - bbox_y1 b\<bar> < 100) label_ys\<rparr>]))"

definition block_candidates :: "real list \<Rightarrow> real \<Rightarrow> OCRBlock \<Rightarrow> candidate list" where
  "block_candidates label_ys page_h b =
     (let txt = normalize_text (block_text b)
      in if txt = [] then []
         else concat (map (candidate_of label_ys page_h b) (find_amounts None txt)))"

text \<open>The checks that drop a candidate from the ranking (\<open>continue\<close>), in the order of the code.\<close>

definition rejected :: "string option \<Rightarrow> real option \<Rightarrow> string list \<Rightarrow> candidate \<Rightarrow> bool" where
  "rejected inv_id id_numeric id_numbers c =
     (let v = cand_val c; val_str = str_int (trunc_int v)
      in if (case inv_id of None \<Rightarrow> False | Some i \<Rightarrow> i \<noteq> [] \<and> strip (cand_raw c) = strip i) then True
         else if (case id_numeric of None \<Rightarrow> False | Some n \<Rightarrow> \<bar>v - n\<bar> < 0.001) then True
         else if v > MAX_TOTAL_DEFAULT then True
         else if v \<le> 0.0 then True
         else if val_str \<in> set id_numbers then True
         else if id_numbers \<noteq> [] \<and> of_int (trunc_int v) = v \<and> length val_str \<ge> 6 \<and>
                 list_ex (\<lambda>n. py_in val_str n \<or> py_in n val_str) id_numbers then True
         else False)"

definition candidate_score :: "real \<Rightarrow> candidate \<Rightarrow> real" where
  "candidate_score page_h c =
     (let v = cand_val c; raw = cand_raw c; frac = cand_bottom_frac c
      in (if cand_near_label c then 5.0 else 0)
         + (if cand_has_sym c \<and> PREFER_CURRENCY_SYMBOL then 3.0 else 0)
         + (if page_h \<noteq> 0 \<and> frac \<noteq> 0
            then (if frac \<ge> 1.0 - BOTTOM_PAGE_RATIO then 2.5
                  else if frac \<ge> 0.5 then 1.0 else frac * 0.3)
            else 0)
         + (if v > 0 then min (log 10 (max v 1) * 0.3) 2.0 else 0)
         + (if CHR ''.'' \<in> set raw \<or> (CHR '','' \<in> set raw \<and> search_digit_comma_digits None raw)
            then 1.5 else 0)
         - (if \<not> cand_has_sym c \<and> (v \<ge> 1000000 \<or> (v \<ge> 100000 \<and> of_int (trunc_int v) = v))
            then 3.0 else 0))"

text \<open>
  \<open>sorted(scored, key=lambda x: x[0], reverse=True)[0]\<close>: the sort is stable, so the first
  of the entries with the highest score.
\<close>

fun best_of :: "real \<times> candidate \<Rightarrow> (real \<times> candidate) list \<Rightarrow> real \<times> candidate" where
  "best_of x [] = x"
| "best_of x (y # ys) = (if fst y > fst x then best_of y ys else best_of x ys)"

definition total_confidence :: "OCRBlock list \<Rightarrow> candidate \<Rightarrow> real" where
  "total_confidence label_blocks best =
     (let ocr_conf = block_confidence (cand_block best);
          label_score0 =
            (if list_ex (\<lambda>lb. \<bar>bbox_y1 lb - bbox_y1 (cand_block best)\<bar> < 100) label_blocks
             then 1.0 else 0.5);
          label_score = (if label_blocks \<noteq> [] then max label_score0 0.7 else label_score0);
          regex_score = (if amount_strict_search (cand_raw best) then 1.0 else 0.6)
      in max 0.0 (min 1.0 (0.2 + 0.7 * min ocr_conf (min label_score regex_score))))"

text \<open>The candidates in the order the blocks are processed, and those that survive.\<close>

definition amount_candidates :: "pylib \<Rightarrow> OCRBlock list \<Rightarrow> candidate list" where
  "amount_candidates L blocks =
     (let page_h = page_height_of blocks;
          label_ys = map bbox_y1 (find_blocks_with_label L blocks TOTAL_LABELS);
          priority_blocks = filter (is_priority label_ys page_h) blocks;
          other_blocks = filter (\<lambda>b. \<not> is_priority label_ys page_h b) blocks
      in concat (map (block_candidates label_ys page_h) (priority_blocks @ take 50 other_blocks)))"

definition surviving_candidates :: "pylib \<Rightarrow> OCRBlock list \<Rightarrow> string option \<Rightarrow> candidate list" where
  "surviving_candidates L blocks inv_id =
     filter (\<lambda>c. \<not> rejected inv_id (invoice_id_numeric inv_id) (invoice_id_numbers inv_id blocks) c)
       (amount_candidates L blocks)"

definition extract_total_amount ::
  "pylib \<Rightarrow> OCRBlock list \<Rightarrow> string option \<Rightarrow> real option \<times> real \<times> string" where
  "extract_total_amount L blocks inv_id =
     (if blocks = [] then (None, 0.0, ''No blocks available'')
      else (case map (\<lambda>c. (candidate_score (page_height_of blocks) c, c))
                   (surviving_candidates L blocks inv_id) of
              [] \<Rightarrow> (None, 0.0, ''No total amount found'')
            | s # ss \<Rightarrow>
                (case best_of s ss of
                   (best_score, best) \<Rightarrow>
                     (Some (cand_val best),
                      total_confidence (find_blocks_with_label L blocks TOTAL_LABELS) best,
                      ''scored('' @ format_1f L best_score @ ''): '' @ cand_raw best))))"

section \<open>Example data\<close>

text \<open>
  One concrete library, for evaluating the code on examples.  \<open>fuzz.ratio\<close> is the
  normalised Indel similarity \<open>100 * 2 * lcs / (len1 + len2)\<close>; a float is printed with its
  decimal expansion (as Python does for amounts of a few digits); the stand-in for the
  digest is the identity, no example depending on the value of a digest.
\<close>

fun lcs_len :: "'a list \<Rightarrow> 'a list \<Rightarrow> nat" where
  "lcs_len [] ys = 0"
| "lcs_len (x # xs) [] = 0"
| "lcs_len (x # xs) (y # ys) =
     (if x = y then Suc (lcs_len xs ys) else max (lcs_len xs (y # ys)) (lcs_len (x # xs) ys))"

definition indel_ratio :: "string \<Rightarrow> string \<Rightarrow> real" where
  "indel_ratio s1 s2 =
     (if length s1 + length s2 = 0 then 100
      else 100 * real (2 * lcs_len s1 s2) / real (length s1 + length s2))"

fun frac_digits :: "nat \<Rightarrow> real \<Rightarrow> string" where
  "frac_digits 0 f = []"
| "frac_digits (Suc n) f =
     (if f = 0 then []
      else digit_char (nat \<lfloor>f * 10\<rfloor>) # frac_digits n (f * 10 - of_int \<lfloor>f * 10\<rfloor>))"

definition decimal_str :: "real \<Rightarrow> string" where
  "decimal_str x =
     (let a = \<bar>x\<bar>; ds = frac_digits 16 (a - of_int \<lfloor>a\<rfloor>)
      in (if x < 0 then [CHR ''-''] else []) @ str_nat (nat \<lfloor>a\<rfloor>) @ [CHR ''.'']
           @ (if ds = [] then [CHR ''0''] else ds))"

text \<open>
  For \<open>partial_ratio\<close>: the best ratio of the shorter string against the windows of its
  length in the longer one.  For \<open>:.1f\<close>: the decimal expansion of the nearest tenth.
\<close>

definition windows :: "nat \<Rightarrow> string \<Rightarrow> string list" where
  "windows m s = map (\<lambda>i. take m (drop i s)) [0 ..< Suc (length s - m)]"

definition window_ratio :: "string \<Rightarrow> string \<Rightarrow> real" where
  "window_ratio a b =
     (let short = (if length a \<le> length b then a else b);
          long = (if length a \<le> length b then b else a)
      in fold max (map (indel_ratio short) (windows (length short) long)) 0)"

definition tenth_str :: "real \<Rightarrow> string" where
  "tenth_str x = decimal_str (of_int (round_half_even (x * 10)) / 10)"

definition example_lib :: pylib where
  "example_lib =
     \<lparr>sha256_hexdigest = (\<lambda>s. s), float_str = decimal_str, format_1f = tenth_str,
      fuzz_ratio = indel_ratio, fuzz_partial_ratio = window_ratio\<rparr>"

text \<open>Example records: a candidate and existing records that differ from it in one place.\<close>

definition example_invoice :: "string \<Rightarrow> real \<Rightarrow> string \<Rightarrow> string \<Rightarrow> invoice_data" where
  "example_invoice v t d j =
     \<lparr>vendor_id = Some v, invoice_id = Some ''a1'', total_amount = Some t,
      invoice_date = Some d, job_id = Some j\<rparr>"

text \<open>An example: canonicalizers, a stored result, and a correction that blanks a field.\<close>

definition example_canon :: canon where
  "example_canon =
     \<lparr>canonicalize_date = (\<lambda>v. case v of PStr s \<Rightarrow> Some s | _ \<Rightarrow> None),
      canonicalize_currency = (\<lambda>v. case v of PStr s \<Rightarrow> Some s | _ \<Rightarrow> None),
      canonicalize_amount_of_str = (\<lambda>v. case v of PNum x \<Rightarrow> Some x | _ \<Rightarrow> None),
      vendor_match = (\<lambda>s. (lower s, s))\<rparr>"

definition example_result :: result_dict where
  "example_result =
     [''invoice_id'' \<mapsto> PStr ''INV-1'', ''total_amount'' \<mapsto> PNum 5,
      ''vendor_name'' \<mapsto> PStr ''ACME'', ''invoice_date'' \<mapsto> PStr ''2024-01-01'',
      ''is_invalid'' \<mapsto> PBool False]"

text \<open>
  An example document: collaborators that would answer, scored confidences below the
  fallback threshold and a slow pipeline, so that only the early exit keeps the model quiet.
\<close>

definition example_env :: "(string \<rightharpoonup> pyval) \<Rightarrow> llm_env" where
  "example_env reply =
     \<lparr>n_blocks = 3, llm_budget_ok = True, early_llm_reply = (\<lambda>fs. Some reply),
      llm_can_process = True, batch_llm_reply = (\<lambda>fs. Some reply),
      pipeline_timings = Some [''ocr'' \<mapsto> 11, ''heuristics'' \<mapsto> 1],
      field_confidence_of = (\<lambda>k r. 0.3)\<rparr>"

definition example_heuristics :: "pyval \<Rightarrow> real \<Rightarrow> heuristic_results" where
  "example_heuristics inv_id c =
     \<lparr>h_invoice_id = (inv_id, c, ''strict regex''),
      h_invoice_date = (PStr ''2024-01-01'', 0.95, ''strict regex''),
      h_total_amount = (PNum 544.46, 0.95, ''scored''),
      h_vendor_name = (PStr ''ACME'', 0.95, ''label''),
      h_tax_amount = (PNone, 0, ''not found'')\<rparr>"

definition example_state :: "pyval \<Rightarrow> extraction" where
  "example_state inv_id =
     scored (example_env Map.empty) (example_heuristics inv_id 0.5) []"

text \<open>
  Blocks for the total-amount extraction: a header line carrying the invoice number, a line
  with the total near the bottom of the page, and the bare number near the top.
\<close>

definition example_block :: "string \<Rightarrow> real \<Rightarrow> OCRBlock" where
  "example_block t y =
     \<lparr>block_text = t, bbox = (0, y, 200, y + 20), block_confidence = 0.9,
      block_engine = ''pdfplumber''\<rparr>"

definition invoice_blocks :: "string \<Rightarrow> OCRBlock list" where
  "invoice_blocks total_text =
     [example_block ''Invoice no: 27301261'' 0, example_block total_text 2500,
      example_block ''27301261'' 50]"


section \<open>Properties of the fallback trigger policy\<close>

lemma stage_times:
  "ocr_time timings =
     (if recorded_time timings ''ocr'' \<noteq> 0 then recorded_time timings ''ocr''
      else recorded_time timings ''extraction'')"
  "heur_time timings = recorded_time timings ''heuristics''"
  by (simp_all add: ocr_time_def heur_time_def recorded_time_def dict_get_def
        split: option.splits)

lemma no_times:
  "recorded_time None k = 0" "recorded_time (Some Map.empty) k = 0"
  by (simp_all add: recorded_time_def)

lemma should_use_llm_stage_times:
  "should_use_llm confidence field_name is_required timings field_missing =
     fallback_policy confidence is_required
       (if recorded_time timings ''ocr'' \<noteq> 0 then recorded_time timings ''ocr''
        else recorded_time timings ''extraction'')
       (recorded_time timings ''heuristics'') field_missing"
proof (cases "timings = None \<or> timings = Some Map.empty")
  case True
  then show ?thesis
    by (auto simp add: should_use_llm_def fallback_policy_def no_times)
next
  case False
  then show ?thesis
    by (simp add: should_use_llm_def fallback_policy_def Let_def stage_times)
qed

lemma should_use_llm_examples:
  "should_use_llm 0.6 ''total_amount'' True (Some [''ocr'' \<mapsto> 9, ''heuristics'' \<mapsto> 2]) False
     = (True, ''slow_pipeline'')"
  "should_use_llm 0.6 ''total_amount'' True (Some [''ocr'' \<mapsto> 9, ''heuristics'' \<mapsto> 1]) False
     = (False, '''')"
  "should_use_llm 0.6 ''total_amount'' True (Some [''ocr'' \<mapsto> 2]) False = (False, '''')"
  "should_use_llm 0.6 ''total_amount'' True (Some [''heuristics'' \<mapsto> 11]) False
     = (True, ''slow_pipeline'')"
  "should_use_llm 0.85 ''total_amount'' True (Some [''ocr'' \<mapsto> 60, ''heuristics'' \<mapsto> 1]) False
     = (False, '''')"
  "should_use_llm 0.6 ''amount_tax'' False (Some [''ocr'' \<mapsto> 60, ''heuristics'' \<mapsto> 1]) True
     = (False, '''')"
  "should_use_llm 0.4 ''total_amount'' True (Some [''ocr'' \<mapsto> 60, ''heuristics'' \<mapsto> 1]) False
     = (True, ''low_conf'')"
  "should_use_llm 0.4 ''total_amount'' True (Some [''ocr'' \<mapsto> 60, ''heuristics'' \<mapsto> 1]) True
     = (True, ''missing_field'')"
  "should_use_llm 0.6 ''total_amount'' True (Some [''extraction'' \<mapsto> 9, ''heuristics'' \<mapsto> 2]) False
     = (True, ''slow_pipeline'')"
  "should_use_llm 0.6 ''total_amount'' True None False = (False, '''')"
  by (simp_all add: should_use_llm_def ocr_time_def heur_time_def dict_get_def Let_def)

text \<open>
  Claim C5.  \<open>should_use_llm\<close> evaluates its triggers in the order missing field, low
  confidence, slow pipeline, first match winning: for every confidence, timing dictionary
  and flags it returns what the specified policy returns on the OCR time and the heuristics
  time recorded in the dictionary.  The OCR time is the entry \<open>ocr\<close>; only when that is absent
  or zero does the code read the entry \<open>extraction\<close> in its place.  The equations that follow
  fix the outcome for concrete dictionaries: eleven seconds in all are slow, ten are not; a
  confidence of 0.85 is not below the bound; a field that is not required never triggers; a
  missing field is reported before a low confidence.
\<close>

theorem should_use_llm_policy:
  "should_use_llm confidence field_name is_required timings field_missing =
     fallback_policy confidence is_required
       (if recorded_time timings ''ocr'' \<noteq> 0 then recorded_time timings ''ocr''
        else recorded_time timings ''extraction'')
       (recorded_time timings ''heuristics'') field_missing
   \<and> (recorded_time timings ''ocr'' \<noteq> 0 \<or> recorded_time timings ''extraction'' = 0 \<longrightarrow>
        should_use_llm confidence field_name is_required timings field_missing =
          fallback_policy confidence is_required (recorded_time timings ''ocr'')
            (recorded_time timings ''heuristics'') field_missing)
   \<and> should_use_llm 0.6 ''total_amount'' True (Some [''ocr'' \<mapsto> 9, ''heuristics'' \<mapsto> 2]) False
        = (True, ''slow_pipeline'')
   \<and> should_use_llm 0.6 ''total_amount'' True (Some [''ocr'' \<mapsto> 9, ''heuristics'' \<mapsto> 1]) False
        = (False, '''')
   \<and> should_use_llm 0.6 ''total_amount'' True (Some [''ocr'' \<mapsto> 2]) False = (False, '''')
   \<and> should_use_llm 0.6 ''total_amount'' True (Some [''heuristics'' \<mapsto> 11]) False
        = (True, ''slow_pipeline'')
   \<and> should_use_llm 0.85 ''total_amount'' True (Some [''ocr'' \<mapsto> 60, ''heuristics'' \<mapsto> 1]) False
        = (False, '''')
   \<and> should_use_llm 0.6 ''amount_tax'' False (Some [''ocr'' \<mapsto> 60, ''heuristics'' \<mapsto> 1]) True
        = (False, '''')
   \<and> should_use_llm 0.4 ''total_amount'' True (Some [''ocr'' \<mapsto> 60, ''heuristics'' \<mapsto> 1]) False
        = (True, ''low_conf'')
   \<and> should_use_llm 0.4 ''total_amount'' True (Some [''ocr'' \<mapsto> 60, ''heuristics'' \<mapsto> 1]) True
        = (True, ''missing_field'')
   \<and> should_use_llm 0.6 ''total_amount'' True
          (Some [''extraction'' \<mapsto> 9, ''heuristics'' \<mapsto> 2]) False
        = (True, ''slow_pipeline'')
   \<and> should_use_llm 0.6 ''total_amount'' True None False = (False, '''')"
proof (intro conjI impI)
  show "should_use_llm confidence field_name is_required timings field_missing =
          fallback_policy confidence is_required (recorded_time timings ''ocr'')
            (recorded_time timings ''heuristics'') field_missing"
    if "recorded_time timings ''ocr'' \<noteq> 0 \<or> recorded_time timings ''extraction'' = 0"
    using that by (auto simp add: should_use_llm_stage_times)
qed (rule should_use_llm_stage_times should_use_llm_examples)+

theorem should_use_llm_policy_witness:
  "should_use_llm 0.6 ''total_amount'' True (Some [''ocr'' \<mapsto> 9, ''heuristics'' \<mapsto> 2]) False
     = fallback_policy 0.6 True 9 2 False
   \<and> fallback_policy 0.6 True 9 2 False = (True, ''slow_pipeline'')
   \<and> recorded_time (Some [''ocr'' \<mapsto> 9, ''heuristics'' \<mapsto> 2]) ''ocr'' = 9"
proof -
  have r: "recorded_time (Some [''ocr'' \<mapsto> 9, ''heuristics'' \<mapsto> 2]) ''ocr'' = 9"
    "recorded_time (Some [''ocr'' \<mapsto> 9, ''heuristics'' \<mapsto> 2]) ''heuristics'' = 2"
    by (simp_all add: recorded_time_def)
  from should_use_llm_policy
         [of "0.6" "''total_amount''" True "Some [''ocr'' \<mapsto> 9, ''heuristics'' \<mapsto> 2]" False]
  show ?thesis
    by (simp add: r fallback_policy_def)
qed

section \<open>Properties of the rate limiter\<close>

lemma evict_length: "length (evict c cs) \<le> length cs"
  by (induction cs) auto

lemma evict_unchanged: "length (evict c cs) = length cs \<Longrightarrow> evict c cs = cs"
proof (induction cs)
  case Nil
  then show ?case by simp
next
  case (Cons a cs)
  show ?case
  proof (cases "a < c")
    case True
    with Cons.prems have "length (evict c cs) = Suc (length cs)" by simp
    with evict_length [of c cs] show ?thesis by simp
  next
    case False
    then show ?thesis by simp
  qed
qed

lemma acquire_refused_unchanged:
  assumes "int (length (calls rl)) \<le> max_calls rl" and "\<not> fst (acquire now rl)"
  shows "snd (acquire now rl) = rl"
proof -
  let ?cs = "evict (now - time_window rl) (calls rl)"
  from assms(2) have full: "max_calls rl \<le> int (length ?cs)"
    by (simp add: acquire_def Let_def split: if_splits)
  with assms(1) evict_length [of "now - time_window rl" "calls rl"]
  have "length ?cs = length (calls rl)" by linarith
  then have "?cs = calls rl" by (rule evict_unchanged)
  with full show ?thesis by (simp add: acquire_def Let_def)
qed

lemma acquire_fresh_scenario:
  fixes t1 t2 t3 t4 :: real
  assumes "t1 \<le> t2" "t2 \<le> t3" "t3 \<le> t1 + 60" "t2 + 60 < t4"
  shows "fst (acquire_seq [t1, t2, t3, t4] (RateLimiter_init 2 60)) = [True, True, False, True]"
proof -
  let ?s1 = "\<lparr>max_calls = 2, time_window = 60, calls = [t1]\<rparr>"
  let ?s2 = "\<lparr>max_calls = 2, time_window = 60, calls = [t1, t2]\<rparr>"
  let ?s4 = "\<lparr>max_calls = 2, time_window = 60, calls = [t4]\<rparr>"
  have a1: "acquire t1 (RateLimiter_init 2 60) = (True, ?s1)"
    by (simp add: acquire_def RateLimiter_init_def)
  have a2: "acquire t2 ?s1 = (True, ?s2)"
    using assms(2,3) by (simp add: acquire_def)
  have a3: "acquire t3 ?s2 = (False, ?s2)"
    using assms(3) by (simp add: acquire_def)
  have a4: "acquire t4 ?s2 = (True, ?s4)"
    using assms(1,4) by (simp add: acquire_def)
  show ?thesis
    by (simp add: a1 a2 a3 a4)
qed

text \<open>
  Claim C8.  \<open>acquire\<close> first evicts the timestamps at the head of the window that are
  older than \<open>now - time_window\<close>, then admits the call iff fewer than \<open>max_calls\<close>
  timestamps remain; an admitted call appends \<open>now\<close>, a refused call leaves a window that
  respects its bound exactly as it was.  With \<open>max_calls = 2\<close> and a window of 60 seconds
  a third call within 60 seconds of the first is refused, and a call made after both
  timestamps have aged out is admitted again.
\<close>

theorem acquire_sliding_window:
  fixes rl :: RateLimiter and now t1 t2 t3 t4 :: real
  shows "(fst (acquire now rl) \<longleftrightarrow>
            int (length (evict (now - time_window rl) (calls rl))) < max_calls rl)
       \<and> (fst (acquire now rl) \<longrightarrow>
            calls (snd (acquire now rl)) = evict (now - time_window rl) (calls rl) @ [now])
       \<and> (\<not> fst (acquire now rl) \<and> int (length (calls rl)) \<le> max_calls rl \<longrightarrow>
            snd (acquire now rl) = rl)
       \<and> (t1 \<le> t2 \<and> t2 \<le> t3 \<and> t3 \<le> t1 + 60 \<and> t2 + 60 < t4 \<longrightarrow>
            fst (acquire_seq [t1, t2, t3, t4] (RateLimiter_init 2 60))
              = [True, True, False, True])"
proof (intro conjI impI)
  show "fst (acquire now rl) \<longleftrightarrow>
          int (length (evict (now - time_window rl) (calls rl))) < max_calls rl"
    by (simp add: acquire_def Let_def)
  show "calls (snd (acquire now rl)) = evict (now - time_window rl) (calls rl) @ [now]"
    if "fst (acquire now rl)"
    using that by (simp add: acquire_def Let_def split: if_splits)
  show "snd (acquire now rl) = rl"
    if "\<not> fst (acquire now rl) \<and> int (length (calls rl)) \<le> max_calls rl"
    using that acquire_refused_unchanged [of rl now] by simp
  show "fst (acquire_seq [t1, t2, t3, t4] (RateLimiter_init 2 60)) = [True, True, False, True]"
    if "t1 \<le> t2 \<and> t2 \<le> t3 \<and> t3 \<le> t1 + 60 \<and> t2 + 60 < t4"
    using that acquire_fresh_scenario [of t1 t2 t3 t4] by simp
qed

theorem acquire_sliding_window_witness:
  "fst (acquire_seq [0, 10, 59, 71] (RateLimiter_init 2 60)) = [True, True, False, True]
   \<and> \<not> fst (acquire 59 \<lparr>max_calls = 2, time_window = 60, calls = [0, 10]\<rparr>)
   \<and> snd (acquire 59 \<lparr>max_calls = 2, time_window = 60, calls = [0, 10]\<rparr>)
        = \<lparr>max_calls = 2, time_window = 60, calls = [0, 10]\<rparr>
   \<and> fst (acquire 61 \<lparr>max_calls = 2, time_window = 60, calls = [0, 10]\<rparr>)
   \<and> calls (snd (acquire 61 \<lparr>max_calls = 2, time_window = 60, calls = [0, 10]\<rparr>)) = [10, 61]"
  using acquire_sliding_window [of 59 "\<lparr>max_calls = 2, time_window = 60, calls = [0, 10]\<rparr>" 0 10 59 71]
    acquire_sliding_window [of 61 "\<lparr>max_calls = 2, time_window = 60, calls = [0, 10]\<rparr>" 0 10 59 71]
  by (simp add: acquire_def)

text \<open>
  The bound on the window is kept by \<open>acquire\<close>, and it holds initially when \<open>max_calls\<close> is
  not negative: every window reached from \<open>__init__\<close> through \<open>acquire\<close> is within its bound.
\<close>

lemma acquire_preserves_bound:
  assumes "int (length (calls self)) \<le> max_calls self"
  shows "int (length (calls (snd (acquire now self)))) \<le> max_calls (snd (acquire now self))"
    and "max_calls (snd (acquire now self)) = max_calls self"
  using assms evict_length [of "now - time_window self" "calls self"]
  by (auto simp add: acquire_def Let_def)

lemma init_within_bound:
  "int (length (calls (RateLimiter_init mc tw))) \<le> max_calls (RateLimiter_init mc tw) \<longleftrightarrow> 0 \<le> mc"
  by (simp add: RateLimiter_init_def)

section \<open>Properties of the deduplication engine\<close>

lemma all_truthy_iff:
  "all_truthy v i t d \<longleftrightarrow>
     v \<noteq> None \<and> v \<noteq> Some [] \<and> i \<noteq> None \<and> i \<noteq> Some [] \<and>
     t \<noteq> None \<and> t \<noteq> Some 0 \<and> d \<noteq> None \<and> d \<noteq> Some []"
  by (auto simp add: all_truthy_def truthy_str_def truthy_num_def split: option.splits)

lemma near_duplicate_scan_eq:
  "near_duplicate_scan L r thr es =
     map (\<lambda>e. (job_name e, similarity L r e))
       (filter (\<lambda>e. fields_truthy e \<and> \<not> same_fields e r \<and> thr \<le> similarity L r e) es)"
  by (induction es) simp_all

lemma detect_near_duplicates_set:
  "set (detect_near_duplicates L r es thr) =
     (if fields_truthy r
      then (\<lambda>e. (job_name e, similarity L r e)) `
             {e \<in> set es. fields_truthy e \<and> \<not> same_fields e r \<and> thr \<le> similarity L r e}
      else {})"
  by (simp add: detect_near_duplicates_def near_duplicate_scan_eq)

lemma detect_near_duplicates_sorted:
  "sorted_wrt (\<lambda>a b. snd b \<le> snd a) (detect_near_duplicates L r es thr)"
proof -
  have "sorted (map (\<lambda>x. - snd x) (sort_key (\<lambda>x. - snd x) xs))" for xs :: "(string \<times> real) list"
    by (rule sorted_sort_key)
  then have "sorted_wrt (\<lambda>a b. snd b \<le> snd a) (sort_key (\<lambda>x. - snd x) xs)"
    for xs :: "(string \<times> real) list"
    by (simp add: sorted_wrt_map)
  then show ?thesis
    by (simp add: detect_near_duplicates_def)
qed

lemma falsy_field_not_truthy:
  assumes "total_amount r = Some 0 \<or> vendor_id r = Some [] \<or> invoice_id r = Some []
             \<or> invoice_date r = Some []"
  shows "\<not> fields_truthy r"
  using assms by (auto simp add: fields_truthy_def all_truthy_iff)

lemma check_duplicates_exact:
  assumes "fst (check_duplicates L r hs eso)"
  shows "snd (check_duplicates L r hs eso) = (False, [])"
  using assms by (auto simp add: check_duplicates_def Let_def split: option.splits if_splits)

lemma check_duplicates_near:
  assumes "es \<noteq> []" and "\<not> fst (check_duplicates L r hs (Some es))"
  shows "snd (check_duplicates L r hs (Some es)) =
           (detect_near_duplicates L r es 0.95 \<noteq> [], detect_near_duplicates L r es 0.95)"
  using assms by (auto simp add: check_duplicates_def Let_def split: option.splits if_splits)

lemma example_similarities:
  "similarity example_lib (example_invoice ''v1'' 5 ''2024-01-01'' ''j0'')
     (example_invoice ''v1'' 5 ''2024-01-01'' ''j1'') = 1"
  "similarity example_lib (example_invoice ''v1'' 5 ''2024-01-01'' ''j0'')
     (example_invoice ''V1'' 5 ''2024-01-01'' ''j1'') = 1"
  "similarity example_lib (example_invoice ''v1'' 5 ''2024-01-01'' ''j0'')
     (example_invoice ''v1'' 5 ''2024-01-02'' ''j2'') = 0.95"
  "similarity example_lib (example_invoice ''v1'' 5 ''2024-01-01'' ''j0'')
     (example_invoice ''v1'' 5 ''2024-01-23'' ''j3'') = 0.9"
  by code_simp+

text \<open>
  Claim C6, as the code has it.  \<open>compute_dedupe_hash\<close> returns the SHA-256 of
  \<open>vendor_id|invoice_id|total_amount|invoice_date\<close> exactly when all four fields are
  truthy (not \<open>None\<close>, not the empty string, not \<open>0.0\<close>) and \<open>None\<close> otherwise; being a
  function it is deterministic, and two records that agree on these four fields hash
  identically whatever their other fields hold.
\<close>

theorem compute_dedupe_hash_truthy:
  "compute_dedupe_hash L v i t d =
     (if v \<noteq> None \<and> v \<noteq> Some [] \<and> i \<noteq> None \<and> i \<noteq> Some [] \<and>
         t \<noteq> None \<and> t \<noteq> Some 0 \<and> d \<noteq> None \<and> d \<noteq> Some []
      then Some (sha256_hexdigest L
                  (the v @ ''|'' @ the i @ ''|'' @ float_str L (the t) @ ''|'' @ the d))
      else None)
   \<and> (same_fields r r' \<longrightarrow> dedupe_hash_of L r = dedupe_hash_of L r')"
  by (simp add: compute_dedupe_hash_def all_truthy_iff joined_def same_fields_def dedupe_hash_of_def)

theorem compute_dedupe_hash_truthy_witness:
  "compute_dedupe_hash example_lib (Some ''v1'') (Some ''a1'') (Some 5) (Some ''2024-01-01'')
     = Some ''v1|a1|5.0|2024-01-01''
   \<and> dedupe_hash_of example_lib (example_invoice ''v1'' 5 ''2024-01-01'' ''j1'')
     = dedupe_hash_of example_lib (example_invoice ''v1'' 5 ''2024-01-01'' ''j2'')"
proof -
  let ?r = "example_invoice ''v1'' 5 ''2024-01-01'' ''j1''"
  let ?r' = "example_invoice ''v1'' 5 ''2024-01-01'' ''j2''"
  have fs: "float_str example_lib 5 = ''5.0''"
    by code_simp
  have sf: "same_fields ?r ?r'"
    by (simp add: same_fields_def example_invoice_def)
  have sha: "sha256_hexdigest example_lib = (\<lambda>s. s)"
    by (simp add: example_lib_def)
  from compute_dedupe_hash_truthy
         [of example_lib "Some ''v1''" "Some ''a1''" "Some 5" "Some ''2024-01-01''" ?r ?r']
  show ?thesis
    using sf by (simp add: fs sha)
qed

theorem compute_dedupe_hash_nonnull_counterexample:
  "compute_dedupe_hash example_lib (Some ''v1'') (Some ''a1'') (Some 0) (Some ''2024-01-01'') = None
   \<and> compute_dedupe_hash example_lib (Some ''v1'') (Some []) (Some 5) (Some ''2024-01-01'') = None"
  by (simp add: compute_dedupe_hash_def all_truthy_iff)

text \<open>
  Claim C10.  A record with \<open>total_amount == 0.0\<close>, or with an empty string as vendor,
  invoice identifier or date, has no hash and no near duplicates, and \<open>check_duplicates\<close>
  flags it neither as an exact nor as a near duplicate, although none of its fields is
  \<open>None\<close>.
\<close>

theorem falsy_field_never_duplicate:
  assumes "total_amount r = Some 0 \<or> vendor_id r = Some [] \<or> invoice_id r = Some []
             \<or> invoice_date r = Some []"
  shows "compute_dedupe_hash L (vendor_id r) (invoice_id r) (total_amount r) (invoice_date r) = None
       \<and> detect_near_duplicates L r es thr = []
       \<and> check_duplicates L r hs eso = (False, False, [])"
proof -
  from assms have nt: "\<not> fields_truthy r"
    by (rule falsy_field_not_truthy)
  then have h: "dedupe_hash_of L r = None"
    by (simp add: dedupe_hash_of_def compute_dedupe_hash_def fields_truthy_def)
  from nt show ?thesis
    by (simp add: h [unfolded dedupe_hash_of_def] h check_duplicates_def detect_near_duplicates_def
          split: option.splits)
qed

theorem falsy_field_never_duplicate_witness:
  "compute_dedupe_hash example_lib (Some ''v1'') (Some ''a1'') (Some 0) (Some ''2024-01-01'') = None
   \<and> detect_near_duplicates example_lib (example_invoice ''v1'' 0 ''2024-01-01'' ''j0'')
        [example_invoice ''V1'' 0 ''2024-01-01'' ''j1''] 0.95 = []
   \<and> check_duplicates example_lib (example_invoice ''v1'' 0 ''2024-01-01'' ''j0'')
        {''v1|a1|0.0|2024-01-01''} (Some [example_invoice ''V1'' 0 ''2024-01-01'' ''j1''])
      = (False, False, [])"
  using falsy_field_never_duplicate
          [of "example_invoice ''v1'' 0 ''2024-01-01'' ''j0''" example_lib
              "[example_invoice ''V1'' 0 ''2024-01-01'' ''j1'']" "0.95"
              "{''v1|a1|0.0|2024-01-01''}" "Some [example_invoice ''V1'' 0 ''2024-01-01'' ''j1'']"]
  by (simp add: example_invoice_def)

text \<open>
  Claim C7, as the code has it.  The near-duplicate check compares the lower-cased
  concatenation \<open>vendor_id invoice_id total_amount invoice_date\<close> of the candidate with that
  of each existing record.  When the candidate's four fields are truthy, an existing record
  is reported, with its similarity, iff its own four fields are truthy, it is not
  field-for-field equal to the candidate, and its similarity is at least the threshold
  (0.95 in \<open>check_duplicates\<close>): a similarity of exactly 0.95 is reported, anything below is
  not.  The list is sorted by descending similarity.  \<open>check_duplicates\<close> skips the check
  when an exact duplicate was found and otherwise returns the whole list; the cap to five
  entries is applied where the result record is built.
\<close>

theorem near_duplicates_reported:
  "((j, s) \<in> set (detect_near_duplicates L r es thr) \<longleftrightarrow>
      fields_truthy r \<and>
      (\<exists>e \<in> set es. fields_truthy e \<and> \<not> same_fields e r \<and> thr \<le> similarity L r e \<and>
                     j = job_name e \<and> s = similarity L r e))
   \<and> sorted_wrt (\<lambda>a b. snd b \<le> snd a) (detect_near_duplicates L r es thr)
   \<and> (fst (check_duplicates L r hs eso) \<longrightarrow> snd (check_duplicates L r hs eso) = (False, []))
   \<and> (es \<noteq> [] \<and> \<not> fst (check_duplicates L r hs (Some es)) \<longrightarrow>
        snd (check_duplicates L r hs (Some es)) =
          (detect_near_duplicates L r es 0.95 \<noteq> [], detect_near_duplicates L r es 0.95))
   \<and> reported_near_duplicates xs = take 5 xs \<and> length (reported_near_duplicates xs) \<le> 5"
proof (intro conjI impI)
  show "(j, s) \<in> set (detect_near_duplicates L r es thr) \<longleftrightarrow>
      fields_truthy r \<and>
      (\<exists>e \<in> set es. fields_truthy e \<and> \<not> same_fields e r \<and> thr \<le> similarity L r e \<and>
                     j = job_name e \<and> s = similarity L r e)"
    by (auto simp add: detect_near_duplicates_set)
  show "sorted_wrt (\<lambda>a b. snd b \<le> snd a) (detect_near_duplicates L r es thr)"
    by (rule detect_near_duplicates_sorted)
  show "snd (check_duplicates L r hs eso) = (False, [])" if "fst (check_duplicates L r hs eso)"
    using that by (rule check_duplicates_exact)
  show "snd (check_duplicates L r hs (Some es)) =
          (detect_near_duplicates L r es 0.95 \<noteq> [], detect_near_duplicates L r es 0.95)"
    if "es \<noteq> [] \<and> \<not> fst (check_duplicates L r hs (Some es))"
    using that check_duplicates_near [of es L r hs] by simp
  show "reported_near_duplicates xs = take 5 xs"
    by (simp add: reported_near_duplicates_def)
  show "length (reported_near_duplicates xs) \<le> 5"
    by (simp add: reported_near_duplicates_def)
qed

theorem near_duplicates_reported_witness:
  "(''j2'', 0.95) \<in> set (detect_near_duplicates example_lib
        (example_invoice ''v1'' 5 ''2024-01-01'' ''j0'')
        [example_invoice ''v1'' 5 ''2024-01-02'' ''j2'', example_invoice ''v1'' 5 ''2024-01-23'' ''j3'']
        0.95)
   \<and> (''j3'', 0.9) \<notin> set (detect_near_duplicates example_lib
        (example_invoice ''v1'' 5 ''2024-01-01'' ''j0'')
        [example_invoice ''v1'' 5 ''2024-01-02'' ''j2'', example_invoice ''v1'' 5 ''2024-01-23'' ''j3'']
        0.95)
   \<and> check_duplicates example_lib (example_invoice ''v1'' 5 ''2024-01-01'' ''j0'') {}
        (Some [example_invoice ''v1'' 5 ''2024-01-02'' ''j2'',
               example_invoice ''v1'' 5 ''2024-01-23'' ''j3''])
      = (False, True, [(''j2'', 0.95)])
   \<and> check_duplicates example_lib (example_invoice ''v1'' 5 ''2024-01-01'' ''j0'')
        {''v1|a1|5.0|2024-01-01''}
        (Some [example_invoice ''v1'' 5 ''2024-01-02'' ''j2''])
      = (True, False, [])"
proof -
  let ?r = "example_invoice ''v1'' 5 ''2024-01-01'' ''j0''"
  let ?e2 = "example_invoice ''v1'' 5 ''2024-01-02'' ''j2''"
  let ?e3 = "example_invoice ''v1'' 5 ''2024-01-23'' ''j3''"
  let ?hs = "{''v1|a1|5.0|2024-01-01''}"
  note sims = example_similarities(3,4)
  have tr: "fields_truthy ?r" "fields_truthy ?e2" "fields_truthy ?e3"
    by (simp_all add: fields_truthy_def all_truthy_iff example_invoice_def)
  have nsame: "\<not> same_fields ?e2 ?r" "\<not> same_fields ?e3 ?r"
    by (simp_all add: same_fields_def example_invoice_def)
  have names: "job_name ?e2 = ''j2''" "job_name ?e3 = ''j3''"
    by (simp_all add: job_name_def example_invoice_def)
  have exact: "fst (check_duplicates example_lib ?r ?hs (Some [?e2]))"
    by code_simp
  have not_exact: "\<not> fst (check_duplicates example_lib ?r {} (Some [?e2, ?e3]))"
    by code_simp
  have det: "detect_near_duplicates example_lib ?r [?e2, ?e3] 0.95 = [(''j2'', 0.95)]"
    using tr nsame names sims by (simp add: detect_near_duplicates_def)
  note T = near_duplicates_reported
             [of _ _ example_lib ?r "[?e2, ?e3]" "0.95" "{}" "Some [?e2, ?e3]" "[]"]
  have c1: "(''j2'', 0.95) \<in> set (detect_near_duplicates example_lib ?r [?e2, ?e3] 0.95)"
    using T [of "''j2''" "0.95"] tr nsame names sims by simp
  have c2: "(''j3'', 0.9) \<notin> set (detect_near_duplicates example_lib ?r [?e2, ?e3] 0.95)"
    using T [of "''j3''" "0.9"] tr nsame names sims by simp
  have c3: "check_duplicates example_lib ?r {} (Some [?e2, ?e3]) = (False, True, [(''j2'', 0.95)])"
    using T [of "''j2''" "0.95"] not_exact det by (simp add: prod_eq_iff)
  have c4: "check_duplicates example_lib ?r ?hs (Some [?e2]) = (True, False, [])"
    using near_duplicates_reported
            [of "''j2''" "0.95" example_lib ?r "[?e2]" "0.95" ?hs "Some [?e2]" "[]"]
      exact
    by (simp add: prod_eq_iff)
  from c1 c2 c3 c4 show ?thesis
    by blast
qed

theorem near_duplicates_counterexample:
  "similarity example_lib (example_invoice ''v1'' 5 ''2024-01-01'' ''j0'')
     (example_invoice ''v1'' 5 ''2024-01-01'' ''j1'') = 1
   \<and> check_duplicates example_lib (example_invoice ''v1'' 5 ''2024-01-01'' ''j0'') {}
        (Some [example_invoice ''v1'' 5 ''2024-01-01'' ''j1'']) = (False, False, [])
   \<and> check_duplicates example_lib (example_invoice ''v1'' 5 ''2024-01-01'' ''j0'') {}
        (Some [example_invoice ''V1'' 5 ''2024-01-01'' ''j1'',
               example_invoice ''V1'' 5 ''2024-01-01'' ''j2'',
               example_invoice ''V1'' 5 ''2024-01-01'' ''j3'',
               example_invoice ''V1'' 5 ''2024-01-01'' ''j4'',
               example_invoice ''V1'' 5 ''2024-01-01'' ''j5'',
               example_invoice ''V1'' 5 ''2024-01-01'' ''j6''])
      = (False, True, [(''j1'', 1), (''j2'', 1), (''j3'', 1), (''j4'', 1), (''j5'', 1), (''j6'', 1)])"
proof -
  let ?r = "example_invoice ''v1'' 5 ''2024-01-01'' ''j0''"
  have a: "similarity example_lib ?r (example_invoice ''v1'' 5 ''2024-01-01'' ''j1'') = 1"
    by (rule example_similarities(1))
  have b: "check_duplicates example_lib ?r {}
             (Some [example_invoice ''v1'' 5 ''2024-01-01'' ''j1'']) = (False, False, [])"
    by code_simp
  have c: "check_duplicates example_lib ?r {}
        (Some [example_invoice ''V1'' 5 ''2024-01-01'' ''j1'',
               example_invoice ''V1'' 5 ''2024-01-01'' ''j2'',
               example_invoice ''V1'' 5 ''2024-01-01'' ''j3'',
               example_invoice ''V1'' 5 ''2024-01-01'' ''j4'',
               example_invoice ''V1'' 5 ''2024-01-01'' ''j5'',
               example_invoice ''V1'' 5 ''2024-01-01'' ''j6''])
      = (False, True, [(''j1'', 1), (''j2'', 1), (''j3'', 1), (''j4'', 1), (''j5'', 1), (''j6'', 1)])"
    by code_simp
  from a b c show ?thesis
    by blast
qed

section \<open>Properties of the validation flags\<close>

lemma strip_empty_iff: "strip s = [] \<longleftrightarrow> list_all is_space s"
proof -
  have "strip s = [] \<longleftrightarrow> (\<forall>c \<in> set (dropWhile is_space s). is_space c)"
    by (simp add: strip_def dropWhile_eq_Nil_conv)
  also have "\<dots> \<longleftrightarrow> dropWhile is_space s = []"
  proof
    assume all: "\<forall>c \<in> set (dropWhile is_space s). is_space c"
    show "dropWhile is_space s = []"
    proof (rule ccontr)
      assume ne: "dropWhile is_space s \<noteq> []"
      then have "\<not> is_space (hd (dropWhile is_space s))"
        by (rule hd_dropWhile)
      moreover from ne have "hd (dropWhile is_space s) \<in> set (dropWhile is_space s)"
        by simp
      ultimately show False using all by blast
    qed
  next
    assume e: "dropWhile is_space s = []"
    show "\<forall>c \<in> set (dropWhile is_space s). is_space c"
      unfolding e by simp
  qed
  also have "\<dots> \<longleftrightarrow> list_all is_space s"
    by (simp add: dropWhile_eq_Nil_conv list_all_iff)
  finally show ?thesis .
qed

lemma missing_value_empty: "missing_value v = field_empty v"
  by (cases v) (auto simp add: missing_value_def field_empty_def strip_empty_iff)

lemma missing_or_blank_empty: "missing_or_blank v = Inr b \<Longrightarrow> b = field_empty v"
  by (cases v) (auto simp add: missing_or_blank_def field_empty_def strip_empty_iff split: if_splits)

lemma missing_or_blank_opt_str: "missing_or_blank (opt_str v) = Inr (field_empty (opt_str v))"
  by (cases v) (auto simp add: missing_or_blank_def field_empty_def opt_str_def strip_empty_iff)

lemma missing_or_blank_str_or_falsy:
  "\<not> truthy v \<or> (\<exists>s. v = PStr s) \<Longrightarrow> missing_or_blank v = Inr (field_empty v)"
  by (cases v) (auto simp add: missing_or_blank_def field_empty_def strip_empty_iff)

lemma final_flags_invalid:
  assumes "final_flags inv_id tot vendor inv_date = Inr f"
  shows "missing_invoice_id f = field_empty inv_id"
    and "missing_total f = (tot = None)"
    and "missing_vendor_name f = field_empty (opt_str vendor)"
    and "missing_date f = field_empty (opt_str inv_date)"
    and "is_invalid f \<longleftrightarrow>
           field_empty inv_id \<or> tot = None \<or> field_empty (opt_str vendor)
             \<or> field_empty (opt_str inv_date)"
proof -
  from assms obtain m_id where m: "missing_or_blank inv_id = Inr m_id"
    by (auto simp add: final_flags_def split: sum.splits)
  then have e: "m_id = field_empty inv_id"
    by (rule missing_or_blank_empty)
  from assms m e have f: "f = \<lparr>missing_invoice_id = field_empty inv_id, missing_total = (tot = None),
        missing_vendor_name = field_empty (opt_str vendor),
        missing_date = field_empty (opt_str inv_date),
        is_invalid = (field_empty inv_id \<or> tot = None \<or> field_empty (opt_str vendor)
                        \<or> field_empty (opt_str inv_date))\<rparr>"
    by (auto simp add: final_flags_def missing_or_blank_opt_str Let_def)
  show "missing_invoice_id f = field_empty inv_id" by (simp add: f)
  show "missing_total f = (tot = None)" by (simp add: f)
  show "missing_vendor_name f = field_empty (opt_str vendor)" by (simp add: f)
  show "missing_date f = field_empty (opt_str inv_date)" by (simp add: f)
  show "is_invalid f \<longleftrightarrow>
           field_empty inv_id \<or> tot = None \<or> field_empty (opt_str vendor)
             \<or> field_empty (opt_str inv_date)" by (simp add: f)
qed

lemma final_flags_returns:
  assumes "\<not> truthy inv_id \<or> (\<exists>s. inv_id = PStr s)"
  shows "\<exists>f. final_flags inv_id tot vendor inv_date = Inr f"
  using missing_or_blank_str_or_falsy [OF assms]
  by (simp add: final_flags_def missing_or_blank_opt_str Let_def)

lemma recalculate_flags_agree: "flags_agree (recalculate_flags d)"
  by (simp add: flags_agree_def recalculate_flags_def dict_get_def missing_value_empty Let_def)

text \<open>A request goes through when no correction hands a non-string to the vendor table.\<close>

definition vendor_values_ok :: "(string \<times> pyval) list \<Rightarrow> bool" where
  "vendor_values_ok cs =
     list_all (\<lambda>c. fst c \<noteq> ''vendor_name'' \<or> \<not> truthy (snd c) \<or> (\<exists>s. snd c = PStr s)) cs"

lemma vendor_canonicalize_ok:
  "\<not> truthy v \<or> (\<exists>s. v = PStr s) \<Longrightarrow> \<exists>p. vendor_canonicalize C v = Inr p"
  by (cases v) (auto simp add: vendor_canonicalize_def split: prod.splits)

lemma apply_corrections_ok:
  "vendor_values_ok cs \<Longrightarrow> snd (apply_corrections C cs d) = None"
proof (induction cs arbitrary: d)
  case Nil
  then show ?case by simp
next
  case (Cons c cs)
  obtain f v where c: "c = (f, v)" by (cases c)
  from Cons.prems have rest: "vendor_values_ok cs"
    by (simp add: vendor_values_ok_def)
  note IH = Cons.IH [OF rest]
  show ?case
  proof (cases "f = ''vendor_name''")
    case True
    with Cons.prems c have "\<not> truthy v \<or> (\<exists>s. v = PStr s)"
      by (simp add: vendor_values_ok_def)
    then obtain p where "vendor_canonicalize C v = Inr p"
      using vendor_canonicalize_ok by blast
    with True c IH show ?thesis
      by (cases p) (simp add: Let_def)
  next
    case False
    with c IH show ?thesis
      by (simp add: Let_def)
  qed
qed

lemma verify_corrections_flags:
  assumes "verify_corrections C st jid cs = (Inr d, st')"
  shows "flags_agree d" and "\<exists>j. st' jid = Some j \<and> job_result j = Some d"
proof -
  from assms obtain j d0 d1 where
    j: "st jid = Some j" and d0: "job_result j = Some d0"
    and ap: "apply_corrections C cs d0 = (d1, None)"
    and d: "d = recalculate_flags d1" and st': "st' = st(jid \<mapsto> j\<lparr>job_result := Some d\<rparr>)"
    by (auto simp add: verify_corrections_def Let_def split: option.splits prod.splits)
  from d show "flags_agree d"
    by (simp add: recalculate_flags_agree)
  from st' show "\<exists>j. st' jid = Some j \<and> job_result j = Some d"
    by simp
qed

lemma verify_corrections_returns:
  assumes "st jid = Some j" and "job_result j = Some d0" and "vendor_values_ok cs"
  shows "\<exists>d. fst (verify_corrections C st jid cs) = Inr d"
proof -
  obtain d1 e where ap: "apply_corrections C cs d0 = (d1, e)"
    by (cases "apply_corrections C cs d0")
  with apply_corrections_ok [OF assms(3), of C d0] have "e = None" by simp
  with ap assms(1,2) show ?thesis
    by (simp add: verify_corrections_def Let_def)
qed

lemma strip_blank_example: "strip ''  '' = []" "strip ''INV-1'' \<noteq> []" "strip ''ACME'' \<noteq> []"
  "strip ''2024-01-01'' \<noteq> []"
  by code_simp+

text \<open>
  Claim C9.  When \<open>process_invoice\<close> completes, \<open>is_invalid\<close> holds iff the invoice
  identifier, the total, the vendor name or the date is empty, and it completes whenever
  the identifier is a string or falsy.  When \<open>verify_corrections\<close> completes, the
  \<open>missing_*\<close> flags and \<open>is_invalid\<close> of the stored result are those of its corrected
  values, whatever flags the result held before and whatever the corrections assigned; it
  completes for a processed job whenever no correction gives the vendor name a truthy
  value that is no string.  A correction that does raises \<open>AttributeError\<close> in the vendor
  table after the stored result has been updated in place, and the flags are then not
  re-derived: lemma \<open>verify_corrections_partial_update\<close> below.
\<close>

theorem is_invalid_invariant:
  "(final_flags inv_id tot vendor inv_date = Inr f \<longrightarrow>
      (is_invalid f \<longleftrightarrow>
         field_empty inv_id \<or> tot = None \<or> field_empty (opt_str vendor)
           \<or> field_empty (opt_str inv_date)))
   \<and> (\<not> truthy inv_id \<or> (\<exists>s. inv_id = PStr s) \<longrightarrow>
        (\<exists>f'. final_flags inv_id tot vendor inv_date = Inr f'))
   \<and> (verify_corrections C st jid cs = (Inr d, st') \<longrightarrow>
        flags_agree d \<and> (\<exists>j'. st' jid = Some j' \<and> job_result j' = Some d))
   \<and> (st jid = Some j \<and> job_result j = Some d0 \<and> vendor_values_ok cs \<longrightarrow>
        (\<exists>d'. fst (verify_corrections C st jid cs) = Inr d'))"
proof (intro conjI impI)
  show "is_invalid f \<longleftrightarrow>
         field_empty inv_id \<or> tot = None \<or> field_empty (opt_str vendor)
           \<or> field_empty (opt_str inv_date)"
    if "final_flags inv_id tot vendor inv_date = Inr f"
    using that by (rule final_flags_invalid(5))
  show "\<exists>f'. final_flags inv_id tot vendor inv_date = Inr f'"
    if "\<not> truthy inv_id \<or> (\<exists>s. inv_id = PStr s)"
    using that by (rule final_flags_returns)
  show "flags_agree d" if "verify_corrections C st jid cs = (Inr d, st')"
    using that by (rule verify_corrections_flags(1))
  show "\<exists>j'. st' jid = Some j' \<and> job_result j' = Some d"
    if "verify_corrections C st jid cs = (Inr d, st')"
    using that by (rule verify_corrections_flags(2))
  show "\<exists>d'. fst (verify_corrections C st jid cs) = Inr d'"
    if "st jid = Some j \<and> job_result j = Some d0 \<and> vendor_values_ok cs"
    using that verify_corrections_returns [of st jid j d0 cs C] by blast
qed

theorem is_invalid_invariant_witness:
  "(case final_flags (PStr ''INV-1'') (Some 5) (Some ''ACME'') (Some ''  '') of
      Inr f \<Rightarrow> is_invalid f \<and> missing_date f \<and> \<not> missing_total f
    | Inl e \<Rightarrow> False)
   \<and> (case fst (verify_corrections example_canon
                  [''job1'' \<mapsto> \<lparr>job_result = Some example_result\<rparr>] ''job1''
                  [(''invoice_id'', PStr ''  '')]) of
        Inr d \<Rightarrow> flags_agree d \<and> d ''is_invalid'' = Some (PBool True)
                 \<and> d ''missing_invoice_id'' = Some (PBool True)
      | Inl e \<Rightarrow> False)"
proof -
  let ?st = "[''job1'' \<mapsto> \<lparr>job_result = Some example_result\<rparr>]"
  let ?cs = "[(''invoice_id'', PStr ''  '')]"
  let ?d = "recalculate_flags (example_result(''invoice_id'' \<mapsto> PStr ''  ''))"
  let ?st' = "?st(''job1'' \<mapsto> \<lparr>job_result = Some ?d\<rparr>)"
  have ff: "final_flags (PStr ''INV-1'') (Some 5) (Some ''ACME'') (Some ''  '') =
        Inr \<lparr>missing_invoice_id = False, missing_total = False, missing_vendor_name = False,
             missing_date = True, is_invalid = True\<rparr>"
    by (simp add: final_flags_def missing_or_blank_def opt_str_def strip_blank_example)
  have ev: "verify_corrections example_canon ?st ''job1'' ?cs = (Inr ?d, ?st')"
    by (simp add: verify_corrections_def Let_def)
  have inv: "?d ''is_invalid'' = Some (PBool True)" "?d ''missing_invoice_id'' = Some (PBool True)"
    by (simp_all add: recalculate_flags_def dict_get_def missing_value_def strip_blank_example
          example_result_def)
  from is_invalid_invariant
         [of "PStr ''INV-1''" "Some 5" "Some ''ACME''" "Some ''  ''" _ example_canon ?st "''job1''"
             ?cs ?d ?st']
  have "flags_agree ?d"
    using ev by blast
  with ff ev inv show ?thesis
    by simp
qed

text \<open>
  The corrections \<open>{"invoice_id": "", "vendor_name": 5}\<close>: the request fails with
  \<open>AttributeError\<close>, and the stored result keeps the emptied invoice identifier next to an
  \<open>is_invalid\<close> flag that is still false.
\<close>

lemma verify_corrections_partial_update:
  "verify_corrections example_canon [''job1'' \<mapsto> \<lparr>job_result = Some example_result\<rparr>] ''job1''
     [(''invoice_id'', PStr []), (''vendor_name'', PInt 5)]
   = (Inl AttributeError,
      [''job1'' \<mapsto> \<lparr>job_result =
         Some (example_result(''invoice_id'' \<mapsto> PStr [], ''vendor_name'' \<mapsto> PInt 5))\<rparr>])"
  "(example_result(''invoice_id'' \<mapsto> PStr [], ''vendor_name'' \<mapsto> PInt 5)) ''is_invalid''
     = Some (PBool False)"
  "field_empty (dict_get (example_result(''invoice_id'' \<mapsto> PStr [], ''vendor_name'' \<mapsto> PInt 5))
     ''invoice_id'' PNone)"
  "\<not> flags_agree (example_result(''invoice_id'' \<mapsto> PStr [], ''vendor_name'' \<mapsto> PInt 5))"
  by (simp_all add: verify_corrections_def vendor_canonicalize_def example_result_def
        dict_get_def field_empty_def flags_agree_def Let_def)

section \<open>Properties of the language-model fallback\<close>

lemma quick_conf_high:
  assumes "quick_conf r \<ge> 0.85"
  shows "truthy (fst r)" and "fst (snd r) > 0.7"
proof -
  show t: "truthy (fst r)"
  proof (rule ccontr)
    assume "\<not> truthy (fst r)"
    then have "quick_conf r \<le> 0.2"
      by (simp add: quick_conf_def min_def)
    with assms show False by simp
  qed
  from assms t show "fst (snd r) > 0.7"
    by (simp add: quick_conf_def min_def split: if_splits)
qed

lemma truthy_not_None: "truthy v \<Longrightarrow> v \<noteq> PNone"
  by (cases v) simp_all

lemma early_update_high:
  assumes "quick_conf (early_update d k r) \<ge> 0.85"
  shows "quick_conf r \<ge> 0.85"
proof (cases "has_value d k")
  case True
  then have "fst (snd (early_update d k r)) = 0.7"
    by (simp add: early_update_def)
  with quick_conf_high(2) [OF assms] show ?thesis by simp
next
  case False
  with assms show ?thesis by (simp add: early_update_def)
qed

lemma all_high_conf_parts:
  assumes "all_high_conf h"
  shows "quick_conf (h_invoice_id h) \<ge> 0.85" "quick_conf (h_total_amount h) \<ge> 0.85"
    "quick_conf (h_invoice_date h) \<ge> 0.85" "quick_conf (h_vendor_name h) \<ge> 0.85"
  using assms unfolding all_high_conf_def by blast+

lemma all_high_conf_values:
  assumes "all_high_conf h"
  shows "fst (h_invoice_id h) \<noteq> PNone" "fst (h_invoice_date h) \<noteq> PNone"
    "fst (h_total_amount h) \<noteq> PNone" "fst (h_vendor_name h) \<noteq> PNone"
proof -
  note q = all_high_conf_parts [OF assms]
  show "fst (h_invoice_id h) \<noteq> PNone"
    by (rule truthy_not_None) (rule quick_conf_high(1) [OF q(1)])
  show "fst (h_invoice_date h) \<noteq> PNone"
    by (rule truthy_not_None) (rule quick_conf_high(1) [OF q(3)])
  show "fst (h_total_amount h) \<noteq> PNone"
    by (rule truthy_not_None) (rule quick_conf_high(1) [OF q(2)])
  show "fst (h_vendor_name h) \<noteq> PNone"
    by (rule truthy_not_None) (rule quick_conf_high(1) [OF q(4)])
qed

lemma all_high_no_early_call:
  assumes "all_high_conf h"
  shows "early_llm_stage E h = (h, [])"
proof -
  from all_high_conf_values [OF assms] have "heuristic_success h = 4"
    by (simp add: heuristic_success_def)
  then show ?thesis
    by (simp add: early_llm_stage_def)
qed

lemma early_stage_cases:
  "fst (early_llm_stage E h) = h \<or> (\<exists>d. fst (early_llm_stage E h) = early_updates d h)"
proof (cases "early_llm_reply E (early_llm_fields h)")
  case None
  then show ?thesis by (simp add: early_llm_stage_def)
next
  case (Some d)
  then show ?thesis by (cases "d = Map.empty") (auto simp add: early_llm_stage_def)
qed

lemma early_updates_high:
  assumes "all_high_conf (early_updates d h)"
  shows "all_high_conf h"
proof -
  have sel: "h_invoice_id (early_updates d h) = early_update d ''invoice_id'' (h_invoice_id h)"
    "h_total_amount (early_updates d h) = early_update d ''total_amount'' (h_total_amount h)"
    "h_invoice_date (early_updates d h) = early_update d ''invoice_date'' (h_invoice_date h)"
    "h_vendor_name (early_updates d h) = early_update d ''vendor_name'' (h_vendor_name h)"
    by (simp_all add: early_updates_def)
  note q = all_high_conf_parts [OF assms, unfolded sel]
  show ?thesis
    unfolding all_high_conf_def
    using early_update_high [OF q(1)] early_update_high [OF q(2)] early_update_high [OF q(3)]
      early_update_high [OF q(4)]
    by blast
qed

lemma early_high_imp_high:
  assumes "all_high_conf (fst (early_llm_stage E h))"
  shows "all_high_conf h"
proof -
  from early_stage_cases [of E h] show ?thesis
  proof
    assume "fst (early_llm_stage E h) = h"
    with assms show ?thesis by (simp only:)
  next
    assume "\<exists>d. fst (early_llm_stage E h) = early_updates d h"
    then obtain d where "fst (early_llm_stage E h) = early_updates d h" ..
    with assms have "all_high_conf (early_updates d h)" by (simp only:)
    then show ?thesis by (rule early_updates_high)
  qed
qed

lemma early_exit_no_call:
  assumes "all_high_conf h"
  shows "process_llm L E h = scored E h []"
  using assms
  by (simp add: process_llm_def all_high_no_early_call fields_to_extract_def batch_llm_stage_def)

text \<open>
  Claim C3.  When the quick confidences of the four required fields are all at least 0.85
  after heuristic extraction, the pipeline asks the language model nothing: the early
  request is not made, the per-field fallback test is skipped (no field is collected), the
  batched request is not made, and the results are the heuristic ones.  The same holds when
  the early-exit test, which the code evaluates after the early request, succeeds there.
\<close>

theorem early_exit_zero_calls:
  "(all_high_conf h \<longrightarrow>
      llm_calls (process_llm L E h) = [] \<and> \<not> llm_used (process_llm L E h) \<and>
      llm_fields (process_llm L E h) = [] \<and> snd (early_llm_stage E h) = [] \<and>
      fields_to_extract E (all_high_conf h) (scored E h []) = [] \<and>
      process_llm L E h = scored E h [])
   \<and> (all_high_conf (fst (early_llm_stage E h)) \<longrightarrow> llm_calls (process_llm L E h) = [])"
proof (intro conjI impI)
  assume a: "all_high_conf h"
  note p = early_exit_no_call [OF a, of L E]
  show "llm_calls (process_llm L E h) = []" by (simp add: p scored_def)
  show "\<not> llm_used (process_llm L E h)" by (simp add: p scored_def)
  show "llm_fields (process_llm L E h) = []" by (simp add: p scored_def)
  show "snd (early_llm_stage E h) = []" by (simp add: all_high_no_early_call [OF a])
  show "fields_to_extract E (all_high_conf h) (scored E h []) = []"
    using a by (simp add: fields_to_extract_def)
  show "process_llm L E h = scored E h []" by (rule p)
next
  assume "all_high_conf (fst (early_llm_stage E h))"
  then have "all_high_conf h" by (rule early_high_imp_high)
  then show "llm_calls (process_llm L E h) = []"
    by (simp add: early_exit_no_call scored_def)
qed

lemma example_high: "all_high_conf (example_heuristics (PStr ''INV-7'') 0.95)"
  by (simp add: all_high_conf_def example_heuristics_def quick_conf_def)

lemma example_requested:
  "fields_to_extract (example_env reply) False
     (scored (example_env reply) (example_heuristics inv_id c) []) =
   [''invoice_id'', ''invoice_date'', ''total_amount'', ''vendor_name'']"
  by (simp add: fields_to_extract_def wants_llm_def scored_def example_env_def dict_get_def
        should_use_llm_def)

theorem early_exit_zero_calls_witness:
  "all_high_conf (example_heuristics (PStr ''INV-7'') 0.95)
   \<and> llm_calls (process_llm example_lib (example_env [''total_amount'' \<mapsto> PNum 99])
                  (example_heuristics (PStr ''INV-7'') 0.95)) = []
   \<and> process_llm example_lib (example_env [''total_amount'' \<mapsto> PNum 99])
        (example_heuristics (PStr ''INV-7'') 0.95)
      = scored (example_env [''total_amount'' \<mapsto> PNum 99])
          (example_heuristics (PStr ''INV-7'') 0.95) []"
  using early_exit_zero_calls
          [of "example_heuristics (PStr ''INV-7'') 0.95" example_lib
              "example_env [''total_amount'' \<mapsto> PNum 99]"]
    example_high
  by blast

lemma str_nat_nonempty: "str_nat n \<noteq> []"
  by (subst str_nat.simps) simp

lemma str_int_nonempty: "str_int i \<noteq> []"
  by (simp add: str_int_def str_nat_nonempty)

lemma py_in_nonempty: "py_in a b \<Longrightarrow> a \<noteq> [] \<Longrightarrow> b \<noteq> []"
  by (cases b) auto

lemma reconcile_total_rejects:
  assumes "truthy inv_id" and "truthy v" and "py_float v = Some x"
    and "str_int (trunc_int x) = digits_only (py_str L inv_id)
           \<or> py_in (str_int (trunc_int x)) (digits_only (py_str L inv_id))
           \<or> x > 1000000"
  shows "reconcile_total L inv_id v \<noteq> Accept"
proof -
  have ne: "digits_only (py_str L inv_id) \<noteq> []"
    if "py_in (str_int (trunc_int x)) (digits_only (py_str L inv_id))"
    using that str_int_nonempty by (rule py_in_nonempty)
  from assms ne show ?thesis
    by (auto simp add: reconcile_total_def Let_def)
qed

lemma apply_llm_total_rejected:
  assumes "d ''total_amount'' = Some v"
    and "reconcile_total L (fst (invoice_id_result st)) v \<noteq> Accept"
  shows "apply_llm_total L d st = st"
  using assms by (simp add: apply_llm_total_def Let_def)

lemma apply_llm_total_accepted:
  assumes "has_value d ''total_amount''"
    and "reconcile_total L (fst (invoice_id_result st)) (the (d ''total_amount'')) = Accept"
  shows "total_amount_result (apply_llm_total L d st) = (the (d ''total_amount''), 0.75, ''LLM extraction'')"
    and "field_confidences (apply_llm_total L d st) ''total_amount''
           = Some (min 0.85 (dict_get (field_confidences st) ''total_amount'' 0 + 0.2))"
    and "field_sources (apply_llm_total L d st) ''total_amount'' = Some ''llm''"
  using assms by (simp_all add: apply_llm_total_def Let_def accept_llm_def)

lemma reconcile_total_no_invoice_id: "\<not> truthy inv_id \<Longrightarrow> reconcile_total L inv_id v = Accept"
  by (simp add: reconcile_total_def)

text \<open>
  Claim C4.  With an invoice identifier at hand, a total from the model whose integer form
  equals or occurs in the identifier's digits, or which exceeds 1,000,000, is refused and
  the extraction is left exactly as it was; an accepted total replaces the result, raises
  the confidence by 0.2 up to 0.85 and is tagged \<open>llm\<close>.  Without an invoice identifier the
  checks are not run, and a total of 2,000,000 is accepted.
\<close>

theorem llm_total_reconciliation:
  "(truthy (fst (invoice_id_result st)) \<and> d ''total_amount'' = Some v \<and> truthy v \<and>
    py_float v = Some x \<and>
    (str_int (trunc_int x) = digits_only (py_str L (fst (invoice_id_result st)))
       \<or> py_in (str_int (trunc_int x)) (digits_only (py_str L (fst (invoice_id_result st))))
       \<or> x > 1000000)
      \<longrightarrow> apply_llm_total L d st = st)
   \<and> (has_value d ''total_amount'' \<and>
      reconcile_total L (fst (invoice_id_result st)) (the (d ''total_amount'')) = Accept
      \<longrightarrow> total_amount_result (apply_llm_total L d st)
            = (the (d ''total_amount''), 0.75, ''LLM extraction'')
          \<and> field_confidences (apply_llm_total L d st) ''total_amount''
            = Some (min 0.85 (dict_get (field_confidences st) ''total_amount'' 0 + 0.2))
          \<and> field_sources (apply_llm_total L d st) ''total_amount'' = Some ''llm'')
   \<and> (\<not> truthy (fst (invoice_id_result st)) \<longrightarrow>
        total_amount_result (apply_llm_total L [''total_amount'' \<mapsto> PNum 2000000] st)
          = (PNum 2000000, 0.75, ''LLM extraction''))"
proof (intro conjI impI)
  assume a: "truthy (fst (invoice_id_result st)) \<and> d ''total_amount'' = Some v \<and> truthy v \<and>
    py_float v = Some x \<and>
    (str_int (trunc_int x) = digits_only (py_str L (fst (invoice_id_result st)))
       \<or> py_in (str_int (trunc_int x)) (digits_only (py_str L (fst (invoice_id_result st))))
       \<or> x > 1000000)"
  then have "reconcile_total L (fst (invoice_id_result st)) v \<noteq> Accept"
    using reconcile_total_rejects [of "fst (invoice_id_result st)" v x L] by blast
  with a show "apply_llm_total L d st = st"
    using apply_llm_total_rejected [of d v L st] by blast
next
  assume a: "has_value d ''total_amount'' \<and>
      reconcile_total L (fst (invoice_id_result st)) (the (d ''total_amount'')) = Accept"
  then have h: "has_value d ''total_amount''"
    and r: "reconcile_total L (fst (invoice_id_result st)) (the (d ''total_amount'')) = Accept"
    by blast+
  show "total_amount_result (apply_llm_total L d st)
            = (the (d ''total_amount''), 0.75, ''LLM extraction'')"
    by (rule apply_llm_total_accepted(1) [OF h r])
  show "field_confidences (apply_llm_total L d st) ''total_amount''
            = Some (min 0.85 (dict_get (field_confidences st) ''total_amount'' 0 + 0.2))"
    by (rule apply_llm_total_accepted(2) [OF h r])
  show "field_sources (apply_llm_total L d st) ''total_amount'' = Some ''llm''"
    by (rule apply_llm_total_accepted(3) [OF h r])
next
  assume n: "\<not> truthy (fst (invoice_id_result st))"
  let ?d = "[''total_amount'' \<mapsto> PNum 2000000]"
  have h: "has_value ?d ''total_amount''"
    by (simp add: has_value_def)
  have r: "reconcile_total L (fst (invoice_id_result st)) (the (?d ''total_amount'')) = Accept"
    using n by (rule reconcile_total_no_invoice_id)
  have v: "the (?d ''total_amount'') = PNum 2000000"
    by simp
  from apply_llm_total_accepted(1) [OF h r]
  show "total_amount_result (apply_llm_total L ?d st) = (PNum 2000000, 0.75, ''LLM extraction'')"
    by (simp only: v)
qed

lemma example_digits:
  "digits_only (py_str example_lib (PStr ''INV-7'')) = ''7''"
  "digits_only (py_str example_lib (PStr ''INV-27301261'')) = ''27301261''"
  by code_simp+

lemma example_int_strs:
  "str_int (trunc_int 2000000) = ''2000000''" "str_int (trunc_int 7301) = ''7301''"
  "str_int (trunc_int 600) = ''600''"
  by (simp_all add: str_int_def trunc_int_def str_nat.simps digit_char_def)

lemma example_verdicts:
  "reconcile_total example_lib (PStr ''INV-7'') (PNum 600) = Accept"
  "reconcile_total example_lib (PStr ''INV-7'') (PNum 2000000) = TooLarge"
  "reconcile_total example_lib (PStr ''INV-27301261'') (PNum 7301) = MatchesInvoiceId"
  "reconcile_total example_lib PNone (PNum 2000000) = Accept"
  by (simp_all add: reconcile_total_def py_float_def example_digits example_int_strs)

theorem llm_total_reconciliation_witness:
  "apply_llm_total example_lib [''total_amount'' \<mapsto> PNum 2000000] (example_state (PStr ''INV-7''))
     = example_state (PStr ''INV-7'')
   \<and> apply_llm_total example_lib [''total_amount'' \<mapsto> PNum 7301]
       (example_state (PStr ''INV-27301261''))
     = example_state (PStr ''INV-27301261'')
   \<and> total_amount_result
       (apply_llm_total example_lib [''total_amount'' \<mapsto> PNum 600] (example_state (PStr ''INV-7'')))
     = (PNum 600, 0.75, ''LLM extraction'')
   \<and> field_confidences
       (apply_llm_total example_lib [''total_amount'' \<mapsto> PNum 600] (example_state (PStr ''INV-7'')))
       ''total_amount'' = Some 0.5
   \<and> field_sources
       (apply_llm_total example_lib [''total_amount'' \<mapsto> PNum 600] (example_state (PStr ''INV-7'')))
       ''total_amount'' = Some ''llm''
   \<and> total_amount_result
       (apply_llm_total example_lib [''total_amount'' \<mapsto> PNum 2000000] (example_state PNone))
     = (PNum 2000000, 0.75, ''LLM extraction'')"
proof -
  have ids: "fst (invoice_id_result (example_state v)) = v" for v
    by (simp add: example_state_def scored_def example_heuristics_def)
  have conf: "dict_get (field_confidences (example_state v)) ''total_amount'' 0 = 0.3" for v
    by (simp add: example_state_def scored_def example_env_def dict_get_def)
  have pf: "py_float (PNum x) = Some x" for x
    by (simp add: py_float_def)
  have c1: "apply_llm_total example_lib [''total_amount'' \<mapsto> PNum 2000000]
              (example_state (PStr ''INV-7'')) = example_state (PStr ''INV-7'')"
    using llm_total_reconciliation
            [of "example_state (PStr ''INV-7'')" "[''total_amount'' \<mapsto> PNum 2000000]"
                "PNum 2000000" 2000000 example_lib]
    by (simp add: ids pf)
  have c2: "apply_llm_total example_lib [''total_amount'' \<mapsto> PNum 7301]
              (example_state (PStr ''INV-27301261'')) = example_state (PStr ''INV-27301261'')"
    using llm_total_reconciliation
            [of "example_state (PStr ''INV-27301261'')" "[''total_amount'' \<mapsto> PNum 7301]"
                "PNum 7301" 7301 example_lib]
    by (simp add: ids pf example_digits example_int_strs)
  note T3 = llm_total_reconciliation
            [of "example_state (PStr ''INV-7'')" "[''total_amount'' \<mapsto> PNum 600]"
                "PNum 600" 600 example_lib]
  have c3: "total_amount_result
       (apply_llm_total example_lib [''total_amount'' \<mapsto> PNum 600] (example_state (PStr ''INV-7'')))
     = (PNum 600, 0.75, ''LLM extraction'')"
    using T3 by (simp add: ids has_value_def example_verdicts)
  have c4: "field_confidences
       (apply_llm_total example_lib [''total_amount'' \<mapsto> PNum 600] (example_state (PStr ''INV-7'')))
       ''total_amount'' = Some 0.5"
    using T3 conf [of "PStr ''INV-7''"] by (simp add: ids has_value_def example_verdicts)
  have c5: "field_sources
       (apply_llm_total example_lib [''total_amount'' \<mapsto> PNum 600] (example_state (PStr ''INV-7'')))
       ''total_amount'' = Some ''llm''"
    using T3 by (simp add: ids has_value_def example_verdicts)
  have c6: "total_amount_result
       (apply_llm_total example_lib [''total_amount'' \<mapsto> PNum 2000000] (example_state PNone))
     = (PNum 2000000, 0.75, ''LLM extraction'')"
    using llm_total_reconciliation
            [of "example_state PNone" "[''total_amount'' \<mapsto> PNum 2000000]"
                "PNum 2000000" 2000000 example_lib]
    by (simp add: ids)
  from c1 c2 c3 c4 c5 c6 show ?thesis
    by blast
qed

text \<open>
  The same on the whole fallback: no invoice identifier was found, the heuristic total is
  544.46, the model answers 2,000,000 and the pipeline takes it.
\<close>

lemma process_llm_large_total:
  "total_amount_result
     (process_llm example_lib (example_env [''total_amount'' \<mapsto> PNum 2000000])
        (example_heuristics PNone 0))
   = (PNum 2000000, 0.75, ''LLM extraction'')"
proof -
  let ?reply = "[''total_amount'' \<mapsto> PNum 2000000]"
  let ?E = "example_env ?reply"
  let ?h = "example_heuristics PNone 0"
  have hs: "heuristic_success ?h = 3"
    by (simp add: heuristic_success_def example_heuristics_def)
  have early: "early_llm_stage ?E ?h = (?h, [])"
    by (simp add: early_llm_stage_def hs)
  have low: "\<not> all_high_conf ?h"
    by (simp add: all_high_conf_def example_heuristics_def quick_conf_def)
  have ne: "?reply \<noteq> Map.empty"
    by simp
  have reply: "batch_llm_reply ?E fs = Some ?reply" "llm_can_process ?E" for fs
    by (simp_all add: example_env_def)
  have hv: "has_value ?reply ''total_amount''" "\<not> has_value ?reply ''invoice_id''"
    "\<not> has_value ?reply ''invoice_date''" "\<not> has_value ?reply ''vendor_name''"
    by (simp_all add: has_value_def)
  have inv: "fst (invoice_id_result (scored ?E ?h [])) = PNone"
    by (simp add: scored_def example_heuristics_def)
  have v: "the (?reply ''total_amount'') = PNum 2000000"
    by simp
  show ?thesis
    using ne
    by (simp add: process_llm_def early low example_requested batch_llm_stage_def reply
          apply_llm_result_def hv apply_llm_total_def inv v example_verdicts accept_llm_def Let_def
          del: fun_upd_apply)
qed

section \<open>Properties of the confidence formula\<close>

text \<open>The rounding agrees with the doubles Python prints for these literals.\<close>

lemma binary64_literals:
  "binary64 0.2 = 7205759403792794 / 2 ^ 55"
  "binary64 0.7 = 6305039478318694 / 2 ^ 53"
  "binary64 0.9 = 8106479329266893 / 2 ^ 53"
  "binary64 0.83 = 7475975381435023 / 2 ^ 53"
  "binary64 1 = 1"
  by code_simp+

lemma confidence_example:
  "compute_confidence (binary64 0.9) 1.0 1.0 False = 7475975381435024 / 2 ^ 53"
  by code_simp

lemma clamp_unit: "clamp 0.0 1.0 x = max 0.0 (min 1.0 x)"
  by (simp add: clamp_def max_def min_def)

lemma Min_three: "Min {a, b, c} = min a (min b (c::real))"
  by simp

text \<open>
  Claim C1, as the code has it.  For all inputs \<open>compute_confidence\<close> is the specified
  formula, clamp included, evaluated in double precision.  At \<open>(0.9, 1.0, 1.0, False)\<close>
  its value is the double next above \<open>0.83\<close>, which Python prints as
  \<open>0.8300000000000001\<close>: it differs from the double \<open>0.83\<close> by one unit in the last place.
\<close>

theorem compute_confidence_formula:
  "compute_confidence ocr_c label_score regex_score llm_agree
     = confidence_formula ocr_c label_score regex_score llm_agree
   \<and> compute_confidence (binary64 0.9) 1.0 1.0 False = binary64 0.83 + 1 / 2 ^ 53
   \<and> \<bar>compute_confidence (binary64 0.9) 1.0 1.0 False - 0.83\<bar> < 1 / 2 ^ 52"
proof (intro conjI)
  show "compute_confidence ocr_c label_score regex_score llm_agree
     = confidence_formula ocr_c label_score regex_score llm_agree"
    unfolding compute_confidence_def compute_confidence_with_def confidence_formula_def
      clamp_unit Min_three Let_def ..
  show "compute_confidence (binary64 0.9) 1.0 1.0 False = binary64 0.83 + 1 / 2 ^ 53"
    by (simp only: confidence_example binary64_literals(4), (simp)?)
  show "\<bar>compute_confidence (binary64 0.9) 1.0 1.0 False - 0.83\<bar> < 1 / 2 ^ 52"
    by (simp only: confidence_example, (simp)?)
qed

theorem compute_confidence_083_counterexample:
  "compute_confidence (binary64 0.9) 1.0 1.0 False \<noteq> binary64 0.83"
  by (simp only: confidence_example binary64_literals(4), (simp)?)

section \<open>Properties of the total-amount extraction\<close>

subsection \<open>What a returned total is\<close>















subsection \<open>Evaluation on example blocks, for every library\<close>

lemma example_block_sel:
  "block_text (example_block t y) = t"
  "bbox_y1 (example_block t y) = y"
  "bbox_y2 (example_block t y) = y + 20"
  by (simp_all add: example_block_def bbox_y1_def bbox_y2_def)




lemma block_candidates_none:
  assumes "find_amounts None (normalize_text t) = []"
  shows "block_candidates ys ph (example_block t y) = []"
  using assms by (simp add: block_candidates_def example_block_sel Let_def)


lemma amounts_facts:
  "find_amounts None (normalize_text ''Invoice no: 27301261'') = []"
  "find_amounts None (normalize_text ''27301261'') = []"
  "find_amounts None (normalize_text ''Total: $544,46'') = []"
  "find_amounts None (normalize_text ''Inv no: 1234567'') = []"
  "find_amounts None (normalize_text ''Total: 544,46'') = [''544,46'']"
  "find_amounts None (normalize_text ''Total: 1,234.00'') = [''1,234.00'']"
  "find_amounts None (normalize_text ''Ref 12,345.00 Total: 544,46'') = [''12,345.00'', ''544,46'']"
  "find_amounts None (normalize_text ''Subtotal: 544,46 Total: 644,46'') = [''544,46'', ''644,46'']"
  "find_amounts None (normalize_text ''Total: 123,456.00'') = [''123,456.00'']"
  "find_amounts None (normalize_text ''Total: 2,000,000.00'') = [''2,000,000.00'']"
  "find_amounts None (normalize_text ''Total: -5,00'') = [''-5,00'']"
  "find_amounts None (normalize_text ''Total: 12,50'') = [''12,50'']"
  by code_simp+












text \<open>The blocks that are scanned and the identifier numbers, for the example block lists.\<close>

lemma page_height_examples:
  "page_height_of (invoice_blocks t) = 2520"
  "page_height_of [example_block t 2500] = 2520"
  "page_height_of [example_block t' 400, example_block t 2500] = 2520"
  by (simp_all add: page_height_of_def invoice_blocks_def example_block_sel)

lemma candidates_of_partition:
  assumes "f b1 = []" and "f b3 = []"
  shows "concat (map f (filter P [b1, b2, b3] @ take 50 (filter (\<lambda>b. \<not> P b) [b1, b2, b3]))) = f b2"
  by (cases "P b1"; cases "P b2"; cases "P b3") (simp_all add: assms)



lemma invoice_blocks_partition:
  "concat (map (block_candidates ys ph)
      (filter (is_priority ys ph) (invoice_blocks t)
         @ take 50 (filter (\<lambda>b. \<not> is_priority ys ph b) (invoice_blocks t))))
     = block_candidates ys ph (example_block t 2500)"
proof -
  have 1: "block_candidates ys ph (example_block ''Invoice no: 27301261'' 0) = []"
    by (rule block_candidates_none) (rule amounts_facts(1))
  have 3: "block_candidates ys ph (example_block ''27301261'' 50) = []"
    by (rule block_candidates_none) (rule amounts_facts(2))
  show ?thesis
    unfolding invoice_blocks_def
    by (rule candidates_of_partition [where f = "block_candidates ys ph", OF 1 3])
qed





lemma invoice_blocks_survivors:
  "surviving_candidates L (invoice_blocks t) inv_id =
     filter (\<lambda>c. \<not> rejected inv_id (invoice_id_numeric inv_id)
                   (invoice_id_numbers inv_id (invoice_blocks t)) c)
       (block_candidates (map bbox_y1 (find_blocks_with_label L (invoice_blocks t) TOTAL_LABELS))
          2520 (example_block t 2500))"
  by (simp only: surviving_candidates_def amount_candidates_def Let_def page_height_examples
        invoice_blocks_partition)










lemma extract_none:
  assumes "blocks \<noteq> []" and "surviving_candidates L blocks inv_id = []"
  shows "extract_total_amount L blocks inv_id = (None, 0, ''No total amount found'')"
  using assms by (simp add: extract_total_amount_def)



lemma example_nonempty:
  "invoice_blocks t \<noteq> []" "[example_block t 2500] \<noteq> []"
  "[example_block t' 400, example_block t 2500] \<noteq> []"
  by (simp_all add: invoice_blocks_def)


text \<open>
  A total written with a currency sign directly before the digits, as in the blocks of
  \<open>tests/test_total_fix.py\<close>, yields no candidate: the relaxed pattern requires the number
  to start after white space or at the start of the text.
\<close>

lemma extract_currency_prefixed:
  "extract_total_amount L (invoice_blocks ''Total: $544,46'') (Some ''27301261'')
     = (None, 0, ''No total amount found'')"
proof (rule extract_none [OF example_nonempty(1)])
  show "surviving_candidates L (invoice_blocks ''Total: $544,46'') (Some ''27301261'') = []"
    by (simp add: invoice_blocks_survivors block_candidates_none [OF amounts_facts(3)])
qed










end
